theory Spec2Isabelle
  imports Complex_Main "HOL-Library.Sublist" "HOL-Library.List_Lexorder" "HOL-Library.AList"
begin

section \<open>Python values\<close>

subsection \<open>Strings\<close>

text \<open>
  A Python \<^verbatim>\<open>str\<close> is a sequence of Unicode code points; it is modelled as the list of
  their numbers, so that \<^verbatim>\<open>len\<close>, slicing, \<^verbatim>\<open>strip\<close> and the comparison used by
  \<^verbatim>\<open>sorted\<close> (lexicographic on code points, the list order of the library)
  count what Python counts. \<open>str ''abc''\<close> is the ASCII literal \<^verbatim>\<open>'abc'\<close>.
\<close>

type_synonym pystr = "nat list"

definition str :: "string \<Rightarrow> pystr" where
  "str s = map of_char s"

text \<open>
  \<^verbatim>\<open>s.endswith(t)\<close> is \<open>suffix t s\<close> and \<^verbatim>\<open>t in s\<close> is \<open>sublist t s\<close>. A variable that
  the source calls \<^verbatim>\<open>card\<close> is \<open>a_card\<close> here, since \<open>card\<close> is the cardinality of a set.
\<close>


text \<open>
  \<^verbatim>\<open>s.split(sep)\<close> for a non-empty \<open>sep\<close> (the only call passes a literal): the parts
  between the occurrences of \<open>sep\<close>, found from the left without overlap. The result is
  never empty.
\<close>

fun split_from :: "pystr \<Rightarrow> pystr \<Rightarrow> pystr \<Rightarrow> pystr list" where
  "split_from sep part [] = [part]"
| "split_from sep part (c # cs) =
     (if sep \<noteq> [] \<and> prefix sep (c # cs)
      then part # split_from sep [] (drop (length sep) (c # cs))
      else split_from sep (part @ [c]) cs)"

definition py_split :: "pystr \<Rightarrow> pystr \<Rightarrow> pystr list" where
  "py_split s sep = split_from sep [] s"

text \<open>
  \<^verbatim>\<open>s.replace(old, new)\<close>: every occurrence of \<open>old\<close>, from the left without overlap,
  wherever it stands in \<open>s\<close>. An empty \<open>old\<close> matches before each character and at the end.
\<close>

fun replace_from :: "pystr \<Rightarrow> pystr \<Rightarrow> pystr \<Rightarrow> pystr" where
  "replace_from old new [] = []"
| "replace_from old new (c # cs) =
     (if old \<noteq> [] \<and> prefix old (c # cs)
      then new @ replace_from old new (drop (length old) (c # cs))
      else c # replace_from old new cs)"

definition py_replace :: "pystr \<Rightarrow> pystr \<Rightarrow> pystr \<Rightarrow> pystr" where
  "py_replace s old new =
     (if old = [] then new @ concat (map (\<lambda>c. c # new) s) else replace_from old new s)"

text \<open>
  \<^verbatim>\<open>s.strip()\<close> removes the leading and trailing characters for which \<^verbatim>\<open>str.isspace\<close>
  holds: the ASCII controls 9-13 and 28-31, the space, and the Unicode spaces U+0085,
  U+00A0, U+1680, U+2000-U+200A, U+2028, U+2029, U+202F, U+205F and U+3000.
\<close>

definition py_isspace :: "nat \<Rightarrow> bool" where
  "py_isspace c \<longleftrightarrow>
     c \<in> {9, 10, 11, 12, 13, 28, 29, 30, 31, 32, 133, 160, 5760, 8232, 8233, 8239, 8287, 12288}
     \<or> (8192 \<le> c \<and> c \<le> 8202)"

definition py_strip :: "pystr \<Rightarrow> pystr" where
  "py_strip s = rev (dropWhile py_isspace (rev (dropWhile py_isspace s)))"

subsection \<open>Exceptions\<close>

datatype exn =
    KeyError pystr
  | TypeError
  | AttributeError
  | ValueError pystr
  | ZeroDivisionError
  | JSONDecodeError
  | OSError
  | FileNotFoundError
  | PermissionError
  | IsADirectoryError
  | UnicodeEncodeError
  | ConnectionError
  | HTTPError nat

subsection \<open>What \<^verbatim>\<open>json.load\<close> returns\<close>

text \<open>
  An object is the association list of a \<^verbatim>\<open>dict\<close> (keys distinct, in insertion order).
  The flattener never looks inside a number; a float is kept as its literal.
\<close>

datatype json =
    JNull
  | JBool bool
  | JInt int
  | JFloat pystr
  | JStr pystr
  | JArr "json list"
  | JObj "(pystr \<times> json) list"

text \<open>\<^verbatim>\<open>v[k]\<close> for a string key \<open>k\<close>: only a dict can be subscripted by a string.\<close>

fun getitem :: "json \<Rightarrow> pystr \<Rightarrow> exn + json" where
  "getitem (JObj kvs) k = (case map_of kvs k of None \<Rightarrow> Inl (KeyError k) | Some v \<Rightarrow> Inr v)"
| "getitem v k = Inl TypeError"

text \<open>\<^verbatim>\<open>v.get(k, d)\<close>: a method of dicts only.\<close>

fun get_default :: "json \<Rightarrow> pystr \<Rightarrow> json \<Rightarrow> exn + json" where
  "get_default (JObj kvs) k d = Inr (case map_of kvs k of None \<Rightarrow> d | Some v \<Rightarrow> v)"
| "get_default v k d = Inl AttributeError"

text \<open>
  \<^verbatim>\<open>for x in v\<close>: a list yields its elements, a dict its keys, a string its characters;
  nothing else is iterable.
\<close>

fun iter :: "json \<Rightarrow> exn + json list" where
  "iter (JArr xs) = Inr xs"
| "iter (JObj kvs) = Inr (map (\<lambda>kv. JStr (fst kv)) kvs)"
| "iter (JStr s) = Inr (map (\<lambda>c. JStr [c]) s)"
| "iter v = Inl TypeError"

section \<open>Data model\<close>

text \<open>
  The dicts the scraper builds, as records. A field carries the prefix of its record:
  \<open>c_title\<close> is \<^verbatim>\<open>card['title']\<close>, \<open>b_cards\<close> is \<^verbatim>\<open>burb_data['cards']\<close>,
  \<open>h_total_pages\<close> is \<^verbatim>\<open>hood_data['total_pages']\<close>, \<open>m_scraped_at\<close> is
  \<^verbatim>\<open>hood_data['metadata']['scraped_at']\<close>, which is absent until the document is saved.
\<close>

record card_data =
  c_title :: pystr
  c_url :: pystr
  c_last_modified :: pystr
  c_has_sound :: bool

record burb_data =
  b_name :: pystr
  b_url :: pystr
  b_cards :: "card_data list"
  b_total_pages :: int

record scrape_metadata =
  m_scraped_at :: pystr
  m_base_url :: pystr

record hood_data =
  h_name :: pystr
  h_description :: pystr
  h_url :: pystr
  h_cards :: "card_data list"
  h_total_pages :: int
  h_burbs :: "burb_data list"
  h_total_burbs :: int
  h_metadata :: "scrape_metadata option"

text \<open>
  The value \<^verbatim>\<open>json.load\<close> reads back from what \<^verbatim>\<open>json.dump\<close> wrote for such a dict:
  the same keys in the same order.
\<close>

definition card_json :: "card_data \<Rightarrow> json" where
  "card_json c =
     JObj [(str ''title'', JStr (c_title c)),
           (str ''url'', JStr (c_url c)),
           (str ''last_modified'', JStr (c_last_modified c)),
           (str ''has_sound'', JBool (c_has_sound c))]"

definition burb_json :: "burb_data \<Rightarrow> json" where
  "burb_json b =
     JObj [(str ''name'', JStr (b_name b)),
           (str ''url'', JStr (b_url b)),
           (str ''cards'', JArr (map card_json (b_cards b))),
           (str ''total_pages'', JInt (b_total_pages b))]"

definition metadata_json :: "scrape_metadata \<Rightarrow> json" where
  "metadata_json m =
     JObj [(str ''scraped_at'', JStr (m_scraped_at m)),
           (str ''base_url'', JStr (m_base_url m))]"

definition hood_json :: "hood_data \<Rightarrow> json" where
  "hood_json h =
     JObj ([(str ''name'', JStr (h_name h)),
            (str ''description'', JStr (h_description h)),
            (str ''url'', JStr (h_url h)),
            (str ''cards'', JArr (map card_json (h_cards h))),
            (str ''total_pages'', JInt (h_total_pages h)),
            (str ''burbs'', JArr (map burb_json (h_burbs h))),
            (str ''total_burbs'', JInt (h_total_burbs h))]
           @ (case h_metadata h of
                None \<Rightarrow> []
              | Some m \<Rightarrow> [(str ''metadata'', metadata_json m)]))"

section \<open>The flattener (\<^verbatim>\<open>flatten_data.py\<close>)\<close>

subsection \<open>Flattened items\<close>

text \<open>
  The dict \<^verbatim>\<open>{'title', 'url', 'has_sound', 'source': {'t', 'h', 'b'}}\<close>. The fields carry
  the prefix of their record (\<open>p_title\<close> is \<^verbatim>\<open>page['title']\<close>, \<open>s_b\<close> is
  \<^verbatim>\<open>source['b']\<close>, absent for a group-level item). Title, url and sound flag are copied
  from the input unchecked, so they are JSON values.
\<close>

record source =
  s_t :: pystr
  s_h :: pystr
  s_b :: "json option"

record page =
  p_title :: json
  p_url :: json
  p_has_sound :: json
  p_source :: source

text \<open>Sequencing of two steps that may raise: the first exception ends the expression.\<close>

definition and_then :: "exn + 'a \<Rightarrow> ('a \<Rightarrow> exn + 'b) \<Rightarrow> exn + 'b" where
  "and_then r f = (case r of Inl e \<Rightarrow> Inl e | Inr v \<Rightarrow> f v)"

text \<open>
  The dict literal of lines 37-45; its entries are evaluated in the order written, so the
  first failing lookup decides the exception.
\<close>

definition hood_page :: "pystr \<Rightarrow> json \<Rightarrow> exn + page" where
  "hood_page hood_name a_card =
     and_then (getitem a_card (str ''title'')) (\<lambda>title.
     and_then (getitem a_card (str ''url'')) (\<lambda>url.
     and_then (get_default a_card (str ''has_sound'') (JBool False)) (\<lambda>has_sound.
       Inr \<lparr>p_title = title, p_url = url, p_has_sound = has_sound,
            p_source = \<lparr>s_t = str ''h'', s_h = hood_name, s_b = None\<rparr>\<rparr>)))"

text \<open>The dict literal of lines 50-59; \<^verbatim>\<open>burb['name']\<close> is looked up last, once per card.\<close>

definition burb_page :: "pystr \<Rightarrow> json \<Rightarrow> json \<Rightarrow> exn + page" where
  "burb_page hood_name burb a_card =
     and_then (getitem a_card (str ''title'')) (\<lambda>title.
     and_then (getitem a_card (str ''url'')) (\<lambda>url.
     and_then (get_default a_card (str ''has_sound'') (JBool False)) (\<lambda>has_sound.
     and_then (getitem burb (str ''name'')) (\<lambda>burb_name.
       Inr \<lparr>p_title = title, p_url = url, p_has_sound = has_sound,
            p_source = \<lparr>s_t = str ''b'', s_h = hood_name, s_b = Some burb_name\<rparr>\<rparr>))))"

subsection \<open>The loops of one file\<close>

text \<open>
  Each loop appends to \<^verbatim>\<open>all_pages\<close> and stops at the first exception, which leaves the
  loop with the items appended so far: the handler of line 61 does not undo them.
\<close>

fun hood_cards_loop :: "pystr \<Rightarrow> json list \<Rightarrow> page list \<Rightarrow> page list \<times> exn option" where
  "hood_cards_loop hood_name [] all_pages = (all_pages, None)"
| "hood_cards_loop hood_name (a_card # rest) all_pages =
     (case hood_page hood_name a_card of
        Inl e \<Rightarrow> (all_pages, Some e)
      | Inr p \<Rightarrow> hood_cards_loop hood_name rest (all_pages @ [p]))"

fun burb_cards_loop :: "pystr \<Rightarrow> json \<Rightarrow> json list \<Rightarrow> page list \<Rightarrow> page list \<times> exn option" where
  "burb_cards_loop hood_name burb [] all_pages = (all_pages, None)"
| "burb_cards_loop hood_name burb (a_card # rest) all_pages =
     (case burb_page hood_name burb a_card of
        Inl e \<Rightarrow> (all_pages, Some e)
      | Inr p \<Rightarrow> burb_cards_loop hood_name burb rest (all_pages @ [p]))"

text \<open>The header \<^verbatim>\<open>for x in v[k]\<close>: the lookup, then the iteration.\<close>

definition for_in_item :: "json \<Rightarrow> pystr \<Rightarrow> exn + json list" where
  "for_in_item v k = and_then (getitem v k) iter"

fun burbs_loop :: "pystr \<Rightarrow> json list \<Rightarrow> page list \<Rightarrow> page list \<times> exn option" where
  "burbs_loop hood_name [] all_pages = (all_pages, None)"
| "burbs_loop hood_name (burb # rest) all_pages =
     (case for_in_item burb (str ''cards'') of
        Inl e \<Rightarrow> (all_pages, Some e)
      | Inr cards \<Rightarrow>
         (case burb_cards_loop hood_name burb cards all_pages of
            (acc, Some e) \<Rightarrow> (acc, Some e)
          | (acc, None) \<Rightarrow> burbs_loop hood_name rest acc))"

text \<open>
  The body of the \<^verbatim>\<open>try\<close> (lines 32-59). \<open>loaded\<close> is what \<^verbatim>\<open>open\<close> and
  \<^verbatim>\<open>json.load\<close> make of the file: the parsed value, or the exception they raise.
\<close>

definition flatten_hood :: "pystr \<Rightarrow> json \<Rightarrow> page list \<Rightarrow> page list \<times> exn option" where
  "flatten_hood hood_name hood_data all_pages =
     (case for_in_item hood_data (str ''cards'') of
        Inl e \<Rightarrow> (all_pages, Some e)
      | Inr cards \<Rightarrow>
         (case hood_cards_loop hood_name cards all_pages of
            (acc, Some e) \<Rightarrow> (acc, Some e)
          | (acc, None) \<Rightarrow>
             (case for_in_item hood_data (str ''burbs'') of
                Inl e \<Rightarrow> (acc, Some e)
              | Inr burbs \<Rightarrow> burbs_loop hood_name burbs acc)))"

definition process_file :: "pystr \<Rightarrow> exn + json \<Rightarrow> page list \<Rightarrow> page list \<times> exn option" where
  "process_file hood_name loaded all_pages =
     (case loaded of
        Inl e \<Rightarrow> (all_pages, Some e)
      | Inr hood_data \<Rightarrow> flatten_hood hood_name hood_data all_pages)"

subsection \<open>The directory scan\<close>

text \<open>
  The input directory is the list \<^verbatim>\<open>os.listdir\<close> returns, each name with what loading
  that file gives. The scan keeps \<^verbatim>\<open>all_pages\<close>, \<^verbatim>\<open>hood_names\<close> and the errors passed
  to \<^verbatim>\<open>logger.error\<close> (the \<^verbatim>\<open>info\<close> lines are left out).
\<close>

type_synonym directory = "(pystr \<times> (exn + json)) list"

record scan =
  all_pages :: "page list"
  hood_names :: "pystr set"
  logged_errors :: "(pystr \<times> exn) list"

fun scan_dir :: "directory \<Rightarrow> scan \<Rightarrow> scan" where
  "scan_dir [] s = s"
| "scan_dir ((filename, loaded) # rest) s =
     (if \<not> suffix (str ''.json'') filename then scan_dir rest s
      else
        let hood_name = take (length filename - 5) filename;
            s1 = s\<lparr>hood_names := insert hood_name (hood_names s)\<rparr>
        in case process_file hood_name loaded (all_pages s1) of
             (acc, None) \<Rightarrow> scan_dir rest (s1\<lparr>all_pages := acc\<rparr>)
           | (acc, Some e) \<Rightarrow>
               scan_dir rest (s1\<lparr>all_pages := acc,
                                 logged_errors := logged_errors s1 @ [(filename, e)]\<rparr>))"

definition scan0 :: scan where
  "scan0 = \<lparr>all_pages = [], hood_names = {}, logged_errors = []\<rparr>"

subsection \<open>Metadata and chunks\<close>





subsection \<open>The number of chunks, on naturals\<close>


section \<open>The projection, as the specification words it\<close>

text \<open>
  These follow the specification, not the code: a card of the group becomes one item tagged
  \<^verbatim>\<open>'h'\<close> with the group name; a card of a subgroup becomes one item tagged \<^verbatim>\<open>'b'\<close> with
  the group name and the subgroup name; the group's own cards come first, then the subgroups
  in order, each with its cards in order. \<^verbatim>\<open>last_modified\<close> is dropped.
\<close>

definition spec_hood_item :: "pystr \<Rightarrow> card_data \<Rightarrow> page" where
  "spec_hood_item group_name c =
     \<lparr>p_title = JStr (c_title c), p_url = JStr (c_url c), p_has_sound = JBool (c_has_sound c),
      p_source = \<lparr>s_t = str ''h'', s_h = group_name, s_b = None\<rparr>\<rparr>"

definition spec_burb_item :: "pystr \<Rightarrow> pystr \<Rightarrow> card_data \<Rightarrow> page" where
  "spec_burb_item group_name sub_name c =
     \<lparr>p_title = JStr (c_title c), p_url = JStr (c_url c), p_has_sound = JBool (c_has_sound c),
      p_source = \<lparr>s_t = str ''b'', s_h = group_name, s_b = Some (JStr sub_name)\<rparr>\<rparr>"

definition spec_burb_items :: "pystr \<Rightarrow> burb_data \<Rightarrow> page list" where
  "spec_burb_items group_name b = map (spec_burb_item group_name (b_name b)) (b_cards b)"

definition spec_flattened_items :: "pystr \<Rightarrow> hood_data \<Rightarrow> page list" where
  "spec_flattened_items group_name d =
     map (spec_hood_item group_name) (h_cards d) @ concat (map (spec_burb_items group_name) (h_burbs d))"

text \<open>
  The group names met during the scan: the stem of every listed name that ends in
  \<^verbatim>\<open>.json\<close>, whatever the file holds.
\<close>

definition scanned_names :: "directory \<Rightarrow> pystr list" where
  "scanned_names input_dir =
     map (\<lambda>entry. take (length (fst entry) - 5) (fst entry))
         (filter (\<lambda>entry. suffix (str ''.json'') (fst entry)) input_dir)"


text \<open>The directory entry of a group document that the scraper persisted under \<open>name\<close>.\<close>

definition group_file :: "pystr \<times> hood_data \<Rightarrow> pystr \<times> (exn + json)" where
  "group_file nd = (fst nd @ str ''.json'', Inr (hood_json (snd nd)))"

section \<open>Example data\<close>

definition ex_card :: "string \<Rightarrow> card_data" where
  "ex_card t = \<lparr>c_title = str t, c_url = str ''Area51/x'',
                 c_last_modified = str ''2009-10-01'', c_has_sound = False\<rparr>"

definition ex_burb :: "string \<Rightarrow> string list \<Rightarrow> burb_data" where
  "ex_burb b ts = \<lparr>b_name = str b, b_url = str ''http://mirror/Area51/'' @ str b,
                    b_cards = map ex_card ts, b_total_pages = int (length ts)\<rparr>"

text \<open>A group with one card of its own and two subgroups of three and five cards.\<close>

definition ex_hood :: hood_data where
  "ex_hood = \<lparr>h_name = str ''Area51'', h_description = str ''Science fiction'',
               h_url = str ''http://mirror/Area51'',
               h_cards = [ex_card ''h1''], h_total_pages = 1,
               h_burbs = [ex_burb ''Vault'' [''v1'', ''v2'', ''v3''],
                          ex_burb ''Nebula'' [''n1'', ''n2'', ''n3'', ''n4'', ''n5'']],
               h_total_burbs = 2,
               h_metadata = Some \<lparr>m_scraped_at = str ''2024-01-01 00:00:00'',
                                    m_base_url = str ''http://mirror''\<rparr>\<rparr>"

definition ex_dir :: directory where
  "ex_dir = [group_file (str ''Area51'', ex_hood), (str ''notes.txt'', Inl JSONDecodeError)]"


section \<open>The scraper (\<^verbatim>\<open>geocities_scraper.py\<close>)\<close>

subsection \<open>The parsed page\<close>

text \<open>
  The tree that the parser builds from a response: a text node, a comment, or a tag with
  its name, the list of its classes and its children. The queries are the ones the scraper
  uses: \<^verbatim>\<open>find_all(name, class_=c)\<close> lists the matching tags below a node in document
  order, \<^verbatim>\<open>find\<close> is the first of them or \<^verbatim>\<open>None\<close>. A tag object is always truthy.
\<close>

datatype node =
    Text pystr
  | Comment pystr
  | Tag pystr "pystr list" "node list"

fun descendants :: "node \<Rightarrow> node list" where
  "descendants (Text s) = []"
| "descendants (Comment s) = []"
| "descendants (Tag name classes kids) = concat (map (\<lambda>k. k # descendants k) kids)"

text \<open>
  \<^verbatim>\<open>get_text()\<close> and \<^verbatim>\<open>.text\<close> of an element join the plain strings below it. The parser
  gives the text inside \<^verbatim>\<open>script\<close>, \<^verbatim>\<open>style\<close> and \<^verbatim>\<open>template\<close> elements a string
  class of its own, and a comment is not a plain string either: an element above them
  leaves both out of its text.
\<close>

fun text_below :: "node \<Rightarrow> pystr" where
  "text_below (Text s) = s"
| "text_below (Comment s) = []"
| "text_below (Tag name classes kids) =
     (if name \<in> set [str ''script'', str ''style'', str ''template''] then []
      else concat (map text_below kids))"

fun get_text :: "node \<Rightarrow> pystr" where
  "get_text (Text s) = s"
| "get_text (Comment s) = s"
| "get_text (Tag name classes kids) = concat (map text_below kids)"

fun is_tag :: "pystr \<Rightarrow> pystr option \<Rightarrow> node \<Rightarrow> bool" where
  "is_tag name cls (Text s) = False"
| "is_tag name cls (Comment s) = False"
| "is_tag name cls (Tag n classes kids) =
     (n = name \<and> (case cls of None \<Rightarrow> True | Some c \<Rightarrow> c \<in> set classes))"

definition find_all :: "pystr \<Rightarrow> pystr option \<Rightarrow> node \<Rightarrow> node list" where
  "find_all name cls n = filter (is_tag name cls) (descendants n)"

definition find_tag :: "pystr \<Rightarrow> pystr option \<Rightarrow> node \<Rightarrow> node option" where
  "find_tag name cls n = (case find_all name cls n of [] \<Rightarrow> None | x # rest \<Rightarrow> Some x)"

subsection \<open>Extracting one card (lines 50-73)\<close>

text \<open>Line 52: the text of the link inside the title element, or \<^verbatim>\<open>"Untitled"\<close>.\<close>

definition card_title :: "node \<Rightarrow> pystr" where
  "card_title a_card =
     (case find_tag (str ''div'') (Some (str ''card-title'')) a_card of
        None \<Rightarrow> str ''Untitled''
      | Some title_element \<Rightarrow>
         (case find_tag (str ''a'') None title_element of
            None \<Rightarrow> str ''Untitled''
          | Some link \<Rightarrow> get_text link))"

text \<open>The glyph of line 66 is U+1F50A.\<close>

definition sound_glyph :: pystr where
  "sound_glyph = [128266]"

text \<open>
  The body of the inner \<^verbatim>\<open>try\<close>: \<open>Inr None\<close> when the \<^verbatim>\<open>if subtitle_element\<close> is not
  entered and nothing is appended, \<open>Inr (Some c)\<close> for the appended record. No query of
  the tree model raises, so \<open>Inl\<close>, the case of the handler on line 74, does not
  arise here.
\<close>

definition extract_card :: "node \<Rightarrow> exn + card_data option" where
  "extract_card a_card =
     (let title = card_title a_card
      in case find_tag (str ''div'') (Some (str ''card-subtitle'')) a_card of
           None \<Rightarrow> Inr None
         | Some subtitle_element \<Rightarrow>
            (let subtitle_text = get_text subtitle_element;
                 parts = py_split subtitle_text (str ''Last modified:'');
                 url0 = (if length parts > 0 then py_strip (parts ! 0) else []);
                 url = py_replace url0 (str ''www.geocities.com/'') [];
                 last_modified = (if length parts > 1 then py_strip (parts ! 1) else []);
                 has_sound = sublist sound_glyph title
             in Inr (Some \<lparr>c_title = title, c_url = url, c_last_modified = last_modified,
                           c_has_sound = has_sound\<rparr>)))"

subsection \<open>The world the scraper acts on\<close>

text \<open>
  The environment answers the requests and tells the time; both may change from one call
  to the next, so they depend on a clock that every request and every \<^verbatim>\<open>time.sleep(1)\<close>
  advances. \<open>respond env t url\<close> is what \<^verbatim>\<open>requests.get(url)\<close>, \<^verbatim>\<open>raise_for_status()\<close> and
  the parser give at time \<open>t\<close>: the parsed page, or the exception of a network error or
  of a non-success status.

  The environment also decides what becomes of a write. \<^verbatim>\<open>open(output_file, 'w')\<close> may
  raise (no such directory for a name with a path separator, no permission, the name of a
  directory, a null byte in the name), and then the directory is as before; or the file is
  opened, which empties it, and \<^verbatim>\<open>json.dump\<close> raises on the way (text that cannot be
  encoded, a full device), which leaves a truncated file that no longer parses; or the
  document is written. \<open>OtherOSError\<close> stands for every other \<^verbatim>\<open>OSError\<close>. \<open>writes env t name content\<close> is that outcome at time \<open>t\<close>.

  The state is the clock, the urls requested so far, the output directory
  \<^verbatim>\<open>geocities_data\<close> and the lines logged. The directory is what the flattener reads
  later: its entries, each name once, with what \<^verbatim>\<open>json.load\<close> makes of the file.
  A group name is taken as the stem of a file name, as the external interface has it:
  \<^verbatim>\<open>os.path.join(output_dir, name)\<close> names the entry \<open>name\<close>, and a successful write
  replaces that entry or adds it.
\<close>

datatype write_error =
    NoSuchDirectory
  | NotPermitted
  | NameOfDirectory
  | NullByteInName
  | NotEncodable
  | OtherOSError

datatype write_outcome = Written | OpenFailed write_error | DumpFailed write_error

text \<open>The exception each failure raises.\<close>

fun write_exn :: "write_error \<Rightarrow> exn" where
  "write_exn NoSuchDirectory = FileNotFoundError"
| "write_exn NotPermitted = PermissionError"
| "write_exn NameOfDirectory = IsADirectoryError"
| "write_exn NullByteInName = ValueError (str ''embedded null byte'')"
| "write_exn NotEncodable = UnicodeEncodeError"
| "write_exn OtherOSError = OSError"

record env =
  respond :: "nat \<Rightarrow> pystr \<Rightarrow> exn + node"
  strftime :: "nat \<Rightarrow> pystr"
  writes :: "nat \<Rightarrow> pystr \<Rightarrow> json \<Rightarrow> write_outcome"

datatype level = INFO | WARNING | ERROR

datatype message =
    ErrorProcessingCard exn
  | ErrorScrapingPage pystr exn
  | ScrapingBurb pystr
  | SavedHoodData pystr
  | ScrapingNeighborhoodPage pystr
  | BurbNotFound pystr pystr
  | ErrorScrapingHood pystr exn
  | SkippingScrapedHood pystr
  | ScrapingCompleted
  | ScrapingFailed exn

record world =
  clock :: nat
  requests :: "pystr list"
  files :: directory
  logged :: "(level \<times> message) list"

definition log_msg :: "level \<Rightarrow> message \<Rightarrow> world \<Rightarrow> world" where
  "log_msg lvl msg w = w\<lparr>logged := logged w @ [(lvl, msg)]\<rparr>"

text \<open>The configuration: \<^verbatim>\<open>neighborhoods\<close> is the association list of the dict.\<close>

record hood_info =
  hi_description :: pystr
  hi_burbs :: "pystr list"

record config =
  base_url :: pystr
  neighborhoods :: "(pystr \<times> hood_info) list"

subsection \<open>\<^verbatim>\<open>get_burb_cards\<close>\<close>

fun cards_loop :: "node list \<Rightarrow> card_data list \<Rightarrow> world \<Rightarrow> card_data list \<times> world" where
  "cards_loop [] cards w = (cards, w)"
| "cards_loop (a_card # rest) cards w =
     (case extract_card a_card of
        Inl e \<Rightarrow> cards_loop rest cards (log_msg WARNING (ErrorProcessingCard e) w)
      | Inr None \<Rightarrow> cards_loop rest cards w
      | Inr (Some c) \<Rightarrow> cards_loop rest (cards @ [c]) w)"

definition get_burb_cards :: "env \<Rightarrow> pystr \<Rightarrow> world \<Rightarrow> card_data list \<times> world" where
  "get_burb_cards env url w =
     (let w1 = w\<lparr>requests := requests w @ [url], clock := Suc (clock w)\<rparr>
      in case respond env (clock w) url of
           Inl e \<Rightarrow> ([], log_msg ERROR (ErrorScrapingPage url e) w1)
         | Inr soup \<Rightarrow> cards_loop (find_all (str ''div'') (Some (str ''card'')) soup) [] w1)"

subsection \<open>\<^verbatim>\<open>scrape_burb\<close>, \<^verbatim>\<open>save_hood_data\<close>, \<^verbatim>\<open>get_scraped_hoods\<close>\<close>

definition scrape_burb :: "env \<Rightarrow> config \<Rightarrow> pystr \<Rightarrow> pystr \<Rightarrow> world \<Rightarrow> burb_data \<times> world" where
  "scrape_burb env cfg hood_name burb_name w =
     (let burb_url = base_url cfg @ str ''/'' @ hood_name @ str ''/'' @ burb_name;
          w1 = log_msg INFO (ScrapingBurb burb_url) w;
          (cards, w2) = get_burb_cards env burb_url w1
      in (\<lparr>b_name = burb_name, b_url = burb_url, b_cards = cards,
           b_total_pages = int (length cards)\<rparr>, w2))"

text \<open>
  \<^verbatim>\<open>save_hood_data\<close> adds the metadata to the dict it was given, which is the one
  \<^verbatim>\<open>scrape_hood\<close> returns afterwards; the model returns the updated document, or the
  exception of lines 109-110, which nothing in \<^verbatim>\<open>save_hood_data\<close> catches.
\<close>

definition save_hood_data ::
  "env \<Rightarrow> config \<Rightarrow> hood_data \<Rightarrow> world \<Rightarrow> (exn + hood_data) \<times> world" where
  "save_hood_data env cfg hood_data w =
     (let hood_name = h_name hood_data;
          output_file = hood_name @ str ''.json'';
          saved = hood_data\<lparr>h_metadata :=
                    Some \<lparr>m_scraped_at = strftime env (clock w), m_base_url = base_url cfg\<rparr>\<rparr>
      in case writes env (clock w) output_file (hood_json saved) of
           OpenFailed x \<Rightarrow> (Inl (write_exn x), w)
         | DumpFailed x \<Rightarrow>
             (Inl (write_exn x),
              w\<lparr>files := AList.update output_file (Inl JSONDecodeError) (files w)\<rparr>)
         | Written \<Rightarrow>
             (Inr saved,
              log_msg INFO (SavedHoodData output_file)
                (w\<lparr>files := AList.update output_file (Inr (hood_json saved)) (files w)\<rparr>)))"

definition get_scraped_hoods :: "world \<Rightarrow> pystr set" where
  "get_scraped_hoods w =
     set (map (\<lambda>filename. take (length filename - 5) filename)
            (filter (\<lambda>filename. suffix (str ''.json'') filename) (map fst (files w))))"

subsection \<open>\<^verbatim>\<open>scrape_hood\<close>\<close>

text \<open>The loop of lines 138-144; the pause of line 142 advances the clock.\<close>

fun scrape_burbs_loop ::
  "env \<Rightarrow> config \<Rightarrow> pystr \<Rightarrow> hood_info \<Rightarrow> pystr list \<Rightarrow> burb_data list \<Rightarrow> world
     \<Rightarrow> burb_data list \<times> world" where
  "scrape_burbs_loop env cfg hood_name hood_info [] scraped_burbs w = (scraped_burbs, w)"
| "scrape_burbs_loop env cfg hood_name hood_info (burb_name # rest) scraped_burbs w =
     (if burb_name \<in> set (hi_burbs hood_info)
      then
        let (burb_data, w1) = scrape_burb env cfg hood_name burb_name w;
            w2 = w1\<lparr>clock := Suc (clock w1)\<rparr>
        in scrape_burbs_loop env cfg hood_name hood_info rest (scraped_burbs @ [burb_data]) w2
      else scrape_burbs_loop env cfg hood_name hood_info rest scraped_burbs
             (log_msg WARNING (BurbNotFound burb_name hood_name) w))"

text \<open>
  The result is the exception raised, or the document returned, with the world left
  behind. \<^verbatim>\<open>burbs or hood_info['burbs']\<close> takes the configured list when \<^verbatim>\<open>burbs\<close> is
  \<^verbatim>\<open>None\<close> or empty. The last two statements save the document and return it, so the
  result of \<^verbatim>\<open>scrape_hood\<close> is that of the save: the saved document, or the exception
  of the write.
\<close>

definition scrape_hood ::
  "env \<Rightarrow> config \<Rightarrow> pystr \<Rightarrow> pystr list option \<Rightarrow> world \<Rightarrow> (exn + hood_data) \<times> world" where
  "scrape_hood env cfg hood_name burbs w =
     (case map_of (neighborhoods cfg) hood_name of
        None \<Rightarrow>
          (Inl (ValueError (str ''Hood '' @ hood_name @ str '' not found in config'')), w)
      | Some hood_info \<Rightarrow>
         (let hood_url = base_url cfg @ str ''/'' @ hood_name;
              w1 = log_msg INFO (ScrapingNeighborhoodPage hood_url) w;
              (hood_cards, w2) = get_burb_cards env hood_url w1;
              burbs_to_scrape =
                (case burbs of
                   None \<Rightarrow> hi_burbs hood_info
                 | Some bs \<Rightarrow> if bs = [] then hi_burbs hood_info else bs);
              (scraped_burbs, w3) =
                scrape_burbs_loop env cfg hood_name hood_info burbs_to_scrape [] w2;
              hood_data = \<lparr>h_name = hood_name,
                           h_description = hi_description hood_info,
                           h_url = hood_url,
                           h_cards = hood_cards,
                           h_total_pages = int (length hood_cards),
                           h_burbs = scraped_burbs,
                           h_total_burbs = int (length scraped_burbs),
                           h_metadata = None\<rparr>
          in save_hood_data env cfg hood_data w3))"

subsection \<open>\<^verbatim>\<open>main\<close>\<close>

record args =
  arg_hood :: "pystr option"
  arg_burbs :: "pystr list option"
  arg_resume :: bool

text \<open>The loop of lines 181-190 over the keys of \<^verbatim>\<open>neighborhoods\<close>.\<close>

fun main_loop :: "env \<Rightarrow> config \<Rightarrow> pystr set \<Rightarrow> pystr list \<Rightarrow> world \<Rightarrow> world" where
  "main_loop env cfg scraped_hoods [] w = w"
| "main_loop env cfg scraped_hoods (hood_name # rest) w =
     (if hood_name \<notin> scraped_hoods
      then
        (case scrape_hood env cfg hood_name None w of
           (Inl e, w1) \<Rightarrow>
             main_loop env cfg scraped_hoods rest
               (log_msg ERROR (ErrorScrapingHood hood_name e) w1)
         | (Inr d, w1) \<Rightarrow> main_loop env cfg scraped_hoods rest w1)
      else main_loop env cfg scraped_hoods rest
             (log_msg INFO (SkippingScrapedHood hood_name) w))"

text \<open>The branch of lines 177-192: every group of the configuration, in its order.\<close>

definition scrape_all :: "env \<Rightarrow> config \<Rightarrow> bool \<Rightarrow> world \<Rightarrow> world" where
  "scrape_all env cfg resume w =
     (let scraped_hoods = (if resume then get_scraped_hoods w else {});
          w1 = main_loop env cfg scraped_hoods (map fst (neighborhoods cfg)) w
      in log_msg INFO ScrapingCompleted w1)"

text \<open>
  The result is the exception that leaves \<^verbatim>\<open>main\<close>, if any. \<^verbatim>\<open>if args.hood\<close> is false
  for \<^verbatim>\<open>None\<close> and for the empty string.
\<close>

definition main :: "env \<Rightarrow> config \<Rightarrow> args \<Rightarrow> world \<Rightarrow> exn option \<times> world" where
  "main env cfg a w =
     (case arg_hood a of
        None \<Rightarrow> (None, scrape_all env cfg (arg_resume a) w)
      | Some hood \<Rightarrow>
          if hood = [] then (None, scrape_all env cfg (arg_resume a) w)
          else
            (case scrape_hood env cfg hood (arg_burbs a) w of
               (Inl e, w1) \<Rightarrow> (Some e, log_msg ERROR (ScrapingFailed e) w1)
             | (Inr results, w1) \<Rightarrow> (None, w1)))"

section \<open>The pages of a group, and scraper examples\<close>

text \<open>
  The pages of a configured group: its own page, then the page of each of its subgroups.
\<close>

definition hood_url_of :: "config \<Rightarrow> pystr \<Rightarrow> pystr" where
  "hood_url_of cfg hood_name = base_url cfg @ str ''/'' @ hood_name"

definition burb_url_of :: "config \<Rightarrow> pystr \<Rightarrow> pystr \<Rightarrow> pystr" where
  "burb_url_of cfg hood_name burb_name =
     base_url cfg @ str ''/'' @ hood_name @ str ''/'' @ burb_name"

definition spec_group_pages :: "config \<Rightarrow> pystr \<Rightarrow> pystr list" where
  "spec_group_pages cfg hood_name =
     (case map_of (neighborhoods cfg) hood_name of
        None \<Rightarrow> []
      | Some hood_info \<Rightarrow>
          hood_url_of cfg hood_name # map (burb_url_of cfg hood_name) (hi_burbs hood_info))"

text \<open>
  The document of a group, as the specification words its assembly. The cards of a page
  are the records of its card elements that have a subtitle, in document order, and none
  when the fetch fails. The subgroups scraped are the requested ones (all configured ones
  when none is requested) that are configured for the group. The page of the group is
  fetched first, then the page of each subgroup with a pause after it, so the subgroup
  pages are fetched at every second tick.
\<close>

definition spec_page_cards :: "exn + node \<Rightarrow> card_data list" where
  "spec_page_cards response =
     (case response of
        Inl e \<Rightarrow> []
      | Inr soup \<Rightarrow>
          List.map_filter
            (\<lambda>element. case extract_card element of Inl e \<Rightarrow> None | Inr r \<Rightarrow> r)
            (find_all (str ''div'') (Some (str ''card'')) soup))"

definition spec_burbs_to_scrape :: "hood_info \<Rightarrow> pystr list option \<Rightarrow> pystr list" where
  "spec_burbs_to_scrape hood_info requested =
     filter (\<lambda>b. b \<in> set (hi_burbs hood_info))
       (case requested of
          None \<Rightarrow> hi_burbs hood_info
        | Some bs \<Rightarrow> if bs = [] then hi_burbs hood_info else bs)"

fun spec_burb_documents :: "env \<Rightarrow> config \<Rightarrow> pystr \<Rightarrow> nat \<Rightarrow> pystr list \<Rightarrow> burb_data list" where
  "spec_burb_documents env cfg hood_name t [] = []"
| "spec_burb_documents env cfg hood_name t (b # bs) =
     \<lparr>b_name = b,
      b_url = burb_url_of cfg hood_name b,
      b_cards = spec_page_cards (respond env t (burb_url_of cfg hood_name b)),
      b_total_pages =
        int (length (spec_page_cards (respond env t (burb_url_of cfg hood_name b))))\<rparr>
     # spec_burb_documents env cfg hood_name (t + 2) bs"

definition spec_group_document ::
  "env \<Rightarrow> config \<Rightarrow> pystr \<Rightarrow> hood_info \<Rightarrow> pystr list \<Rightarrow> nat \<Rightarrow> hood_data" where
  "spec_group_document env cfg hood_name hood_info subgroups t =
     \<lparr>h_name = hood_name,
      h_description = hi_description hood_info,
      h_url = hood_url_of cfg hood_name,
      h_cards = spec_page_cards (respond env t (hood_url_of cfg hood_name)),
      h_total_pages =
        int (length (spec_page_cards (respond env t (hood_url_of cfg hood_name)))),
      h_burbs = spec_burb_documents env cfg hood_name (t + 1) subgroups,
      h_total_burbs = int (length subgroups),
      h_metadata =
        Some \<lparr>m_scraped_at = strftime env (t + 1 + 2 * length subgroups),
              m_base_url = base_url cfg\<rparr>\<rparr>"

text \<open>
  A configuration of two groups, an environment in which the page of the second group
  cannot be fetched, every other page shows one card and every write succeeds, and an
  output directory that already holds the file of the first group.
\<close>

definition ex_page :: node where
  "ex_page =
     Tag (str ''[document]'') []
       [Tag (str ''div'') [str ''card'']
          [Tag (str ''div'') [str ''card-title''] [Tag (str ''a'') [] [Text (str ''Home'')]],
           Tag (str ''div'') [str ''card-subtitle'']
             [Text (str '' www.geocities.com/Area51/1 Last modified: 2009 '')]]]"

definition ex_env :: env where
  "ex_env = \<lparr>respond = (\<lambda>t url. if url = str ''http://mirror/Athens''
                                    then Inl (HTTPError 404) else Inr ex_page),
             strftime = (\<lambda>t. str ''2024-01-01 00:00:00''),
             writes = (\<lambda>t name content. Written)\<rparr>"

text \<open>The same environment with an output directory that cannot be written.\<close>

definition ex_env_read_only :: env where
  "ex_env_read_only = ex_env\<lparr>writes := (\<lambda>t name content. OpenFailed NotPermitted)\<rparr>"

definition ex_config :: config where
  "ex_config = \<lparr>base_url = str ''http://mirror'',
                 neighborhoods =
                   [(str ''Area51'', \<lparr>hi_description = str ''Science fiction'',
                                        hi_burbs = [str ''Vault'']\<rparr>),
                    (str ''Athens'', \<lparr>hi_description = str ''Education'',
                                        hi_burbs = [str ''Acropolis'']\<rparr>)]\<rparr>"

definition ex_world :: world where
  "ex_world = \<lparr>clock = 0, requests = [],
                files = [(str ''Area51.json'', Inr (hood_json ex_hood))],
                logged = []\<rparr>"

text \<open>A card with a title link and no subtitle element.\<close>

definition ex_card_no_subtitle :: node where
  "ex_card_no_subtitle =
     Tag (str ''div'') [str ''card'']
       [Tag (str ''div'') [str ''card-title''] [Tag (str ''a'') [] [Text (str ''Home'')]]]"

text \<open>A card whose subtitle shows the address with its scheme, and no marker.\<close>

definition ex_card_scheme :: node where
  "ex_card_scheme =
     Tag (str ''div'') [str ''card'']
       [Tag (str ''div'') [str ''card-subtitle'']
          [Text (str '' http://www.geocities.com/Area51/ '')]]"

text \<open>
  Removing a prefix, as the specification and the comment on line 61 word it: only at the
  start of the string.
\<close>

definition spec_remove_prefix :: "pystr \<Rightarrow> pystr \<Rightarrow> pystr" where
  "spec_remove_prefix p s = (if prefix p s then drop (length p) s else s)"

section \<open>Lemmas about the flattener\<close>

subsection \<open>Slices and ceiling division\<close>
















subsection \<open>Flattening a persisted group document\<close>

lemma str_eq_iff [simp]: "str a = str b \<longleftrightarrow> a = b"
  by (simp add: str_def inj_map_eq_map inj_of_char)

lemma hood_page_card_json [simp]:
  "hood_page h (card_json c) = Inr (spec_hood_item h c)"
  by (simp add: hood_page_def card_json_def spec_hood_item_def and_then_def)

lemma burb_page_card_json [simp]:
  "burb_page h (burb_json b) (card_json c) = Inr (spec_burb_item h (b_name b) c)"
  by (simp add: burb_page_def card_json_def burb_json_def spec_burb_item_def and_then_def)

lemma hood_cards_loop_json:
  "hood_cards_loop h (map card_json cs) acc = (acc @ map (spec_hood_item h) cs, None)"
  by (induction cs arbitrary: acc) simp_all

lemma burb_cards_loop_json:
  "burb_cards_loop h (burb_json b) (map card_json cs) acc
     = (acc @ map (spec_burb_item h (b_name b)) cs, None)"
  by (induction cs arbitrary: acc) simp_all

lemma for_in_burb_cards [simp]:
  "for_in_item (burb_json b) (str ''cards'') = Inr (map card_json (b_cards b))"
  by (simp add: for_in_item_def and_then_def burb_json_def)

lemma burbs_loop_json:
  "burbs_loop h (map burb_json bs) acc = (acc @ concat (map (spec_burb_items h) bs), None)"
  by (induction bs arbitrary: acc) (simp_all add: burb_cards_loop_json spec_burb_items_def)

lemma for_in_hood_cards [simp]:
  "for_in_item (hood_json d) (str ''cards'') = Inr (map card_json (h_cards d))"
  by (simp add: for_in_item_def and_then_def hood_json_def)

lemma for_in_hood_burbs [simp]:
  "for_in_item (hood_json d) (str ''burbs'') = Inr (map burb_json (h_burbs d))"
  by (simp add: for_in_item_def and_then_def hood_json_def)

lemma flatten_hood_json:
  "flatten_hood h (hood_json d) acc = (acc @ spec_flattened_items h d, None)"
  by (simp add: flatten_hood_def hood_cards_loop_json burbs_loop_json spec_flattened_items_def)

subsection \<open>The directory scan\<close>

lemma scan_dir_append: "scan_dir (xs @ ys) s = scan_dir ys (scan_dir xs s)"
  by (induction xs arbitrary: s) (auto simp: Let_def split: prod.splits option.splits)

lemma scanned_names_simps [simp]:
  "scanned_names [] = []"
  "scanned_names ((f, r) # rest) =
     (if suffix (str ''.json'') f then take (length f - 5) f # scanned_names rest
      else scanned_names rest)"
  by (simp_all add: scanned_names_def)

lemma scan_dir_hood_names:
  "hood_names (scan_dir d s) = hood_names s \<union> set (scanned_names d)"
proof (induction d arbitrary: s)
  case Nil
  show ?case by simp
next
  case (Cons a d)
  obtain f r where a: "a = (f, r)" by (cases a)
  show ?case
  proof (cases "suffix (str ''.json'') f")
    case True
    obtain acc e where p: "process_file (take (length f - 5) f) r (all_pages s) = (acc, e)"
      by (cases "process_file (take (length f - 5) f) r (all_pages s)")
    show ?thesis unfolding a using True p by (cases e) (simp_all add: Cons.IH Let_def)
  next
    case False
    then show ?thesis unfolding a by (simp add: Cons.IH)
  qed
qed

lemma suffix_json [simp]: "suffix (str ''.json'') (n @ str ''.json'')"
  by (simp add: suffix_def)

lemma length_str_json [simp]: "length (str ''.json'') = 5"
  by (simp add: str_def)

lemma scan_dir_group_files:
  "scan_dir (map group_file vs) s =
     s\<lparr>hood_names := hood_names s \<union> fst ` set vs,
       all_pages := all_pages s @ concat (map (\<lambda>nd. spec_flattened_items (fst nd) (snd nd)) vs)\<rparr>"
proof (induction vs arbitrary: s)
  case Nil
  show ?case by simp
next
  case (Cons v vs)
  show ?case
    by (simp add: Cons.IH group_file_def[of v] process_file_def flatten_hood_json Let_def Un_commute
          insert_commute)
qed

lemma scan_dir_corrupt:
  "suffix (str ''.json'') f \<Longrightarrow>
   scan_dir [(f, Inl e)] s =
     s\<lparr>hood_names := insert (take (length f - 5) f) (hood_names s),
       all_pages := all_pages s,
       logged_errors := logged_errors s @ [(f, e)]\<rparr>"
  by (simp add: process_file_def Let_def)

lemma scan_dir_other:
  "\<not> suffix (str ''.json'') f \<Longrightarrow> scan_dir ((f, r) # rest) s = scan_dir rest s"
  by simp



lemma scan_dir_finite: "finite (hood_names (scan_dir d scan0))"
  by (simp add: scan_dir_hood_names scan0_def)








lemma ex_scan_from:
  "scan_dir ex_dir s =
     s\<lparr>hood_names := hood_names s \<union> {str ''Area51''},
       all_pages := all_pages s @ spec_flattened_items (str ''Area51'') ex_hood\<rparr>"
proof -
  have "\<not> suffix (str ''.json'') (str ''notes.txt'')"
    by (simp add: str_def suffix_to_prefix)
  then have eq: "scan_dir ex_dir s = scan_dir (map group_file [(str ''Area51'', ex_hood)]) s"
    unfolding ex_dir_def
    using scan_dir_append[of "map group_file [(str ''Area51'', ex_hood)]"
            "[(str ''notes.txt'', Inl JSONDecodeError)]" s]
    by simp
  show ?thesis unfolding eq scan_dir_group_files by simp
qed


section \<open>Claims about the flattener\<close>









text \<open>
  Claim C6. Flattening a persisted group document appends, after what was accumulated
  before, one item per card: the group's own cards first, tagged \<^verbatim>\<open>'h'\<close> with the group
  name, then for each subgroup in order its cards in order, tagged \<^verbatim>\<open>'b'\<close> with the
  group name and the subgroup name; a directory of such documents yields their projections
  in directory order. In particular a group with one card of its own and two subgroups of
  3 and 5 cards yields 9 items: 1 tagged \<^verbatim>\<open>'h'\<close>, then 3 tagged \<^verbatim>\<open>'b'\<close> with the first
  subgroup's name, then 5 with the second's.
\<close>

theorem group_document_projection:
  "flatten_hood hood_name (hood_json d) acc = (acc @ spec_flattened_items hood_name d, None)
   \<and> all_pages (scan_dir (map group_file docs) scan0)
       = concat (map (\<lambda>nd. spec_flattened_items (fst nd) (snd nd)) docs)
   \<and> (\<forall>b1 b2. length (h_cards d) = 1 \<and> h_burbs d = [b1, b2]
          \<and> length (b_cards b1) = 3 \<and> length (b_cards b2) = 5 \<longrightarrow>
        (\<exists>hs bs1 bs2.
           fst (flatten_hood hood_name (hood_json d) []) = hs @ bs1 @ bs2
         \<and> length (hs @ bs1 @ bs2) = 9
         \<and> length hs = 1 \<and> length bs1 = 3 \<and> length bs2 = 5
         \<and> (\<forall>p\<in>set hs. p_source p = \<lparr>s_t = str ''h'', s_h = hood_name, s_b = None\<rparr>)
         \<and> (\<forall>p\<in>set bs1. p_source p =
                \<lparr>s_t = str ''b'', s_h = hood_name, s_b = Some (JStr (b_name b1))\<rparr>)
         \<and> (\<forall>p\<in>set bs2. p_source p =
                \<lparr>s_t = str ''b'', s_h = hood_name, s_b = Some (JStr (b_name b2))\<rparr>)))"
proof (intro conjI allI impI)
  show "flatten_hood hood_name (hood_json d) acc = (acc @ spec_flattened_items hood_name d, None)"
    by (rule flatten_hood_json)
next
  show "all_pages (scan_dir (map group_file docs) scan0)
          = concat (map (\<lambda>nd. spec_flattened_items (fst nd) (snd nd)) docs)"
    by (simp add: scan_dir_group_files scan0_def)
next
  fix b1 b2
  assume a: "length (h_cards d) = 1 \<and> h_burbs d = [b1, b2]
          \<and> length (b_cards b1) = 3 \<and> length (b_cards b2) = 5"
  let ?hs = "map (spec_hood_item hood_name) (h_cards d)"
  let ?bs1 = "map (spec_burb_item hood_name (b_name b1)) (b_cards b1)"
  let ?bs2 = "map (spec_burb_item hood_name (b_name b2)) (b_cards b2)"
  have "fst (flatten_hood hood_name (hood_json d) []) = ?hs @ ?bs1 @ ?bs2"
    using a by (simp add: flatten_hood_json spec_flattened_items_def spec_burb_items_def)
  moreover have "length (?hs @ ?bs1 @ ?bs2) = 9" "length ?hs = 1" "length ?bs1 = 3" "length ?bs2 = 5"
    using a by simp_all
  moreover have "\<forall>p\<in>set ?hs. p_source p = \<lparr>s_t = str ''h'', s_h = hood_name, s_b = None\<rparr>"
    by (simp add: spec_hood_item_def)
  moreover have "\<forall>p\<in>set ?bs1. p_source p =
                \<lparr>s_t = str ''b'', s_h = hood_name, s_b = Some (JStr (b_name b1))\<rparr>"
    "\<forall>p\<in>set ?bs2. p_source p =
                \<lparr>s_t = str ''b'', s_h = hood_name, s_b = Some (JStr (b_name b2))\<rparr>"
    by (simp_all add: spec_burb_item_def)
  ultimately show "\<exists>hs bs1 bs2.
           fst (flatten_hood hood_name (hood_json d) []) = hs @ bs1 @ bs2
         \<and> length (hs @ bs1 @ bs2) = 9
         \<and> length hs = 1 \<and> length bs1 = 3 \<and> length bs2 = 5
         \<and> (\<forall>p\<in>set hs. p_source p = \<lparr>s_t = str ''h'', s_h = hood_name, s_b = None\<rparr>)
         \<and> (\<forall>p\<in>set bs1. p_source p =
                \<lparr>s_t = str ''b'', s_h = hood_name, s_b = Some (JStr (b_name b1))\<rparr>)
         \<and> (\<forall>p\<in>set bs2. p_source p =
                \<lparr>s_t = str ''b'', s_h = hood_name, s_b = Some (JStr (b_name b2))\<rparr>)"
    by blast
qed

theorem group_document_projection_witness:
  "length (h_cards ex_hood) = 1
   \<and> h_burbs ex_hood = [ex_burb ''Vault'' [''v1'', ''v2'', ''v3''],
                        ex_burb ''Nebula'' [''n1'', ''n2'', ''n3'', ''n4'', ''n5'']]
   \<and> length (b_cards (ex_burb ''Vault'' [''v1'', ''v2'', ''v3''])) = 3
   \<and> length (b_cards (ex_burb ''Nebula'' [''n1'', ''n2'', ''n3'', ''n4'', ''n5''])) = 5
   \<and> map (\<lambda>p. (s_t (p_source p), s_b (p_source p)))
        (fst (flatten_hood (str ''Area51'') (hood_json ex_hood) []))
       = [(str ''h'', None),
          (str ''b'', Some (JStr (str ''Vault''))), (str ''b'', Some (JStr (str ''Vault''))),
          (str ''b'', Some (JStr (str ''Vault''))),
          (str ''b'', Some (JStr (str ''Nebula''))), (str ''b'', Some (JStr (str ''Nebula''))),
          (str ''b'', Some (JStr (str ''Nebula''))), (str ''b'', Some (JStr (str ''Nebula''))),
          (str ''b'', Some (JStr (str ''Nebula'')))]"
  using group_document_projection[of "str ''Area51''" ex_hood "[]" "[]"]
  by (simp add: spec_flattened_items_def spec_burb_items_def spec_burb_item_def
        spec_hood_item_def ex_hood_def ex_burb_def)

section \<open>Lemmas about the scraper\<close>

lemma extract_card_no_subtitle:
  "find_tag (str ''div'') (Some (str ''card-subtitle'')) a_card = None
     \<Longrightarrow> extract_card a_card = Inr None"
  by (simp add: extract_card_def)

lemma extract_card_not_Inl: "extract_card a_card \<noteq> Inl e"
  by (simp add: extract_card_def Let_def split: option.splits)

lemma cards_loop_world: "snd (cards_loop es cards w) = w"
proof (induction es arbitrary: cards)
  case Nil
  show ?case by simp
next
  case (Cons a es)
  show ?case
    using extract_card_not_Inl[of a] Cons.IH
    by (cases "extract_card a") (auto split: option.splits)
qed

lemma extract_card_some_iff:
  "(\<exists>c. extract_card a_card = Inr (Some c))
     \<longleftrightarrow> find_tag (str ''div'') (Some (str ''card-subtitle'')) a_card \<noteq> None"
  by (auto simp: extract_card_def Let_def split: option.splits)

lemma cards_loop_length:
  "length (fst (cards_loop es cards w))
     = length cards
       + length (filter (\<lambda>e. find_tag (str ''div'') (Some (str ''card-subtitle'')) e \<noteq> None) es)"
proof (induction es arbitrary: cards)
  case Nil
  show ?case by simp
next
  case (Cons a es)
  show ?case
  proof (cases "find_tag (str ''div'') (Some (str ''card-subtitle'')) a")
    case None
    then show ?thesis by (simp add: extract_card_no_subtitle Cons.IH)
  next
    case (Some se)
    then obtain c where "extract_card a = Inr (Some c)"
      using extract_card_some_iff[of a] by auto
    then show ?thesis using Some by (simp add: Cons.IH)
  qed
qed

lemma cards_loop_cards:
  "fst (cards_loop es cards w)
     = cards @ List.map_filter (\<lambda>element. case extract_card element of Inl e \<Rightarrow> None | Inr r \<Rightarrow> r) es"
proof (induction es arbitrary: cards)
  case Nil
  show ?case by (simp add: List.map_filter_simps)
next
  case (Cons a es)
  show ?case
    using extract_card_not_Inl[of a] Cons.IH
    by (cases "extract_card a") (auto simp: List.map_filter_simps split: option.splits)
qed

lemma get_burb_cards_world:
  assumes "get_burb_cards env url w = (cards, w')"
  shows "requests w' = requests w @ [url]" and "files w' = files w"
    and "clock w' = Suc (clock w)"
  using assms cards_loop_world[of "find_all (str ''div'') (Some (str ''card''))
          (projr (respond env (clock w) url))" "[]"
          "w\<lparr>requests := requests w @ [url], clock := Suc (clock w)\<rparr>"]
  by (auto simp: get_burb_cards_def Let_def log_msg_def split: sum.splits prod.splits
        dest!: arg_cong[where f=snd])

lemma get_burb_cards_cards:
  "fst (get_burb_cards env url w) = spec_page_cards (respond env (clock w) url)"
  by (cases "respond env (clock w) url")
     (simp_all add: get_burb_cards_def Let_def spec_page_cards_def cards_loop_cards)

lemma scrape_burb_result:
  assumes "scrape_burb env cfg hood_name burb_name w = (b, w')"
  shows "b = \<lparr>b_name = burb_name, b_url = burb_url_of cfg hood_name burb_name,
               b_cards = spec_page_cards (respond env (clock w) (burb_url_of cfg hood_name burb_name)),
               b_total_pages = int (length (spec_page_cards
                  (respond env (clock w) (burb_url_of cfg hood_name burb_name))))\<rparr>"
    and "requests w' = requests w @ [burb_url_of cfg hood_name burb_name]"
    and "files w' = files w"
    and "clock w' = Suc (clock w)"
proof -
  let ?u = "base_url cfg @ str ''/'' @ hood_name @ str ''/'' @ burb_name"
  let ?w1 = "log_msg INFO (ScrapingBurb ?u) w"
  obtain cards w2 where g: "get_burb_cards env ?u ?w1 = (cards, w2)"
    by (cases "get_burb_cards env ?u ?w1")
  have c: "cards = spec_page_cards (respond env (clock w) ?u)"
    using get_burb_cards_cards[of env ?u ?w1] g by (simp add: log_msg_def)
  have b: "b = \<lparr>b_name = burb_name, b_url = ?u, b_cards = cards,
                 b_total_pages = int (length cards)\<rparr>" and w: "w' = w2"
    using assms g by (simp_all add: scrape_burb_def Let_def)
  show "b = \<lparr>b_name = burb_name, b_url = burb_url_of cfg hood_name burb_name,
               b_cards = spec_page_cards (respond env (clock w) (burb_url_of cfg hood_name burb_name)),
               b_total_pages = int (length (spec_page_cards
                  (respond env (clock w) (burb_url_of cfg hood_name burb_name))))\<rparr>"
    unfolding b c by (simp add: burb_url_of_def)
  show "requests w' = requests w @ [burb_url_of cfg hood_name burb_name]"
    "files w' = files w" "clock w' = Suc (clock w)"
    using get_burb_cards_world[OF g] w by (simp_all add: log_msg_def burb_url_of_def)
qed

lemma scrape_burbs_loop_result:
  assumes "scrape_burbs_loop env cfg hood_name info bs acc w = (res, w')"
  shows "res = acc @ spec_burb_documents env cfg hood_name (clock w)
                       (filter (\<lambda>b. b \<in> set (hi_burbs info)) bs)
       \<and> clock w' = clock w + 2 * length (filter (\<lambda>b. b \<in> set (hi_burbs info)) bs)
       \<and> files w' = files w
       \<and> requests w' = requests w @ map (burb_url_of cfg hood_name)
                                         (filter (\<lambda>b. b \<in> set (hi_burbs info)) bs)"
  using assms
proof (induction bs arbitrary: acc w)
  case Nil
  then show ?case by simp
next
  case (Cons b bs)
  show ?case
  proof (cases "b \<in> set (hi_burbs info)")
    case True
    obtain bd w1 where s: "scrape_burb env cfg hood_name b w = (bd, w1)"
      by (cases "scrape_burb env cfg hood_name b w")
    have l: "scrape_burbs_loop env cfg hood_name info bs (acc @ [bd])
               (w1\<lparr>clock := Suc (clock w1)\<rparr>) = (res, w')"
      using Cons.prems True s by simp
    show ?thesis
      using Cons.IH[OF l] scrape_burb_result[OF s] True by simp
  next
    case False
    then have l: "scrape_burbs_loop env cfg hood_name info bs acc
               (log_msg WARNING (BurbNotFound b hood_name) w) = (res, w')"
      using Cons.prems by simp
    show ?thesis using Cons.IH[OF l] False by (simp add: log_msg_def)
  qed
qed

lemma spec_burb_documents_names:
  "map b_name (spec_burb_documents env cfg hood_name t bs) = bs"
  by (induction bs arbitrary: t) simp_all

lemma spec_burb_documents_length [simp]:
  "length (spec_burb_documents env cfg hood_name t bs) = length bs"
  by (induction bs arbitrary: t) simp_all

lemma spec_burb_documents_counts:
  "\<forall>b\<in>set (spec_burb_documents env cfg hood_name t bs).
      b_total_pages b = int (length (b_cards b))"
  by (induction bs arbitrary: t) simp_all

lemma spec_page_cards_isl: "isl r \<Longrightarrow> spec_page_cards r = []"
  by (cases r) (simp_all add: spec_page_cards_def)

lemma spec_burb_documents_all_fail:
  "\<forall>t u. isl (respond env t u) \<Longrightarrow>
   \<forall>b\<in>set (spec_burb_documents env cfg hood_name t bs). b_cards b = []"
  by (induction bs arbitrary: t) (simp_all add: spec_page_cards_isl)

lemma scrape_hood_known:
  assumes "map_of (neighborhoods cfg) hood_name = Some info"
  shows "\<exists>w3. scrape_hood env cfg hood_name burbs w
              = save_hood_data env cfg
                  ((spec_group_document env cfg hood_name info
                      (spec_burbs_to_scrape info burbs) (clock w))\<lparr>h_metadata := None\<rparr>) w3
      \<and> clock w3 = clock w + 1 + 2 * length (spec_burbs_to_scrape info burbs)
      \<and> files w3 = files w
      \<and> requests w3 = requests w @ hood_url_of cfg hood_name #
           map (burb_url_of cfg hood_name) (spec_burbs_to_scrape info burbs)"
proof -
  define hood_url where "hood_url = base_url cfg @ str ''/'' @ hood_name"
  define w1 where "w1 = log_msg INFO (ScrapingNeighborhoodPage hood_url) w"
  obtain hood_cards w2 where g: "get_burb_cards env hood_url w1 = (hood_cards, w2)"
    by (cases "get_burb_cards env hood_url w1")
  define todo where "todo = (case burbs of None \<Rightarrow> hi_burbs info
                 | Some bs \<Rightarrow> if bs = [] then hi_burbs info else bs)"
  obtain scraped w3 where l: "scrape_burbs_loop env cfg hood_name info todo [] w2 = (scraped, w3)"
    by (cases "scrape_burbs_loop env cfg hood_name info todo [] w2")
  have k: "spec_burbs_to_scrape info burbs = filter (\<lambda>b. b \<in> set (hi_burbs info)) todo"
    by (simp add: spec_burbs_to_scrape_def todo_def)
  have u: "hood_url = hood_url_of cfg hood_name" by (simp add: hood_url_def hood_url_of_def)
  have c: "hood_cards = spec_page_cards (respond env (clock w) hood_url)"
    using get_burb_cards_cards[of env hood_url w1] g by (simp add: w1_def log_msg_def)
  have w2: "clock w2 = Suc (clock w)" "files w2 = files w" "requests w2 = requests w @ [hood_url]"
    using get_burb_cards_world[OF g] by (simp_all add: w1_def log_msg_def)
  note r = scrape_burbs_loop_result[OF l]
  have r': "scrape_hood env cfg hood_name burbs w
          = save_hood_data env cfg
              \<lparr>h_name = hood_name, h_description = hi_description info, h_url = hood_url,
               h_cards = hood_cards, h_total_pages = int (length hood_cards),
               h_burbs = scraped, h_total_burbs = int (length scraped), h_metadata = None\<rparr> w3"
    unfolding scrape_hood_def assms
    using g l by (simp add: Let_def hood_url_def[symmetric] w1_def[symmetric] todo_def[symmetric])
  have d: "\<lparr>h_name = hood_name, h_description = hi_description info, h_url = hood_url,
               h_cards = hood_cards, h_total_pages = int (length hood_cards),
               h_burbs = scraped, h_total_burbs = int (length scraped), h_metadata = None\<rparr>
           = (spec_group_document env cfg hood_name info
                      (spec_burbs_to_scrape info burbs) (clock w))\<lparr>h_metadata := None\<rparr>"
    using r w2 by (simp add: spec_group_document_def c u k)
  have "scrape_hood env cfg hood_name burbs w
          = save_hood_data env cfg
              ((spec_group_document env cfg hood_name info
                  (spec_burbs_to_scrape info burbs) (clock w))\<lparr>h_metadata := None\<rparr>) w3"
    unfolding r' d ..
  moreover have "clock w3 = clock w + 1 + 2 * length (spec_burbs_to_scrape info burbs)"
    "files w3 = files w"
    "requests w3 = requests w @ hood_url_of cfg hood_name #
           map (burb_url_of cfg hood_name) (spec_burbs_to_scrape info burbs)"
    using r w2 by (simp_all add: k u)
  ultimately show ?thesis by blast
qed

lemma save_hood_data_result:
  assumes "clock w3 = t + 1 + 2 * length subgroups"
  shows "save_hood_data env cfg
           ((spec_group_document env cfg hood_name info subgroups t)\<lparr>h_metadata := None\<rparr>) w3
     = (case writes env (clock w3) (hood_name @ str ''.json'')
               (hood_json (spec_group_document env cfg hood_name info subgroups t)) of
          OpenFailed x \<Rightarrow> (Inl (write_exn x), w3)
        | DumpFailed x \<Rightarrow>
            (Inl (write_exn x),
             w3\<lparr>files := AList.update (hood_name @ str ''.json'') (Inl JSONDecodeError) (files w3)\<rparr>)
        | Written \<Rightarrow>
            (Inr (spec_group_document env cfg hood_name info subgroups t),
             log_msg INFO (SavedHoodData (hood_name @ str ''.json''))
               (w3\<lparr>files := AList.update (hood_name @ str ''.json'')
                     (Inr (hood_json (spec_group_document env cfg hood_name info subgroups t)))
                     (files w3)\<rparr>)))"
proof -
  have "(spec_group_document env cfg hood_name info subgroups t)
          \<lparr>h_metadata := Some \<lparr>m_scraped_at = strftime env (clock w3),
                                m_base_url = base_url cfg\<rparr>\<rparr>
        = spec_group_document env cfg hood_name info subgroups t"
    using assms by (simp add: spec_group_document_def)
  then show ?thesis
    by (simp add: save_hood_data_def Let_def spec_group_document_def[where t=t, THEN arg_cong[where f=h_name]])
qed

lemma scrape_hood_unknown:
  assumes "map_of (neighborhoods cfg) hood_name = None"
  shows "scrape_hood env cfg hood_name burbs w
           = (Inl (ValueError (str ''Hood '' @ hood_name @ str '' not found in config'')), w)"
  by (simp add: scrape_hood_def assms)

lemma scrape_hood_outcome:
  assumes "map_of (neighborhoods cfg) hood_name = Some info"
  shows "requests (snd (scrape_hood env cfg hood_name burbs w))
           = requests w @ hood_url_of cfg hood_name #
               map (burb_url_of cfg hood_name) (spec_burbs_to_scrape info burbs)"
    and "writes env (clock w + 1 + 2 * length (spec_burbs_to_scrape info burbs))
           (hood_name @ str ''.json'')
           (hood_json (spec_group_document env cfg hood_name info
                         (spec_burbs_to_scrape info burbs) (clock w))) = Written
         \<Longrightarrow> fst (scrape_hood env cfg hood_name burbs w)
               = Inr (spec_group_document env cfg hood_name info
                        (spec_burbs_to_scrape info burbs) (clock w))
           \<and> files (snd (scrape_hood env cfg hood_name burbs w))
               = AList.update (hood_name @ str ''.json'')
                   (Inr (hood_json (spec_group_document env cfg hood_name info
                                      (spec_burbs_to_scrape info burbs) (clock w))))
                   (files w)"
    and "writes env (clock w + 1 + 2 * length (spec_burbs_to_scrape info burbs))
           (hood_name @ str ''.json'')
           (hood_json (spec_group_document env cfg hood_name info
                         (spec_burbs_to_scrape info burbs) (clock w))) = OpenFailed x
         \<Longrightarrow> fst (scrape_hood env cfg hood_name burbs w) = Inl (write_exn x)
           \<and> files (snd (scrape_hood env cfg hood_name burbs w)) = files w"
    and "writes env (clock w + 1 + 2 * length (spec_burbs_to_scrape info burbs))
           (hood_name @ str ''.json'')
           (hood_json (spec_group_document env cfg hood_name info
                         (spec_burbs_to_scrape info burbs) (clock w))) = DumpFailed x
         \<Longrightarrow> fst (scrape_hood env cfg hood_name burbs w) = Inl (write_exn x)
           \<and> files (snd (scrape_hood env cfg hood_name burbs w))
               = AList.update (hood_name @ str ''.json'') (Inl JSONDecodeError) (files w)"
proof -
  let ?kept = "spec_burbs_to_scrape info burbs"
  let ?D = "spec_group_document env cfg hood_name info ?kept (clock w)"
  obtain w3 where r: "scrape_hood env cfg hood_name burbs w
              = save_hood_data env cfg (?D\<lparr>h_metadata := None\<rparr>) w3"
    and c: "clock w3 = clock w + 1 + 2 * length ?kept"
    and f: "files w3 = files w"
    and q: "requests w3 = requests w @ hood_url_of cfg hood_name #
           map (burb_url_of cfg hood_name) ?kept"
    using scrape_hood_known[OF assms, where env=env and burbs=burbs and w=w] by blast
  note s = save_hood_data_result[OF c, where env=env and cfg=cfg and hood_name=hood_name and info=info]
  show "requests (snd (scrape_hood env cfg hood_name burbs w))
           = requests w @ hood_url_of cfg hood_name # map (burb_url_of cfg hood_name) ?kept"
    unfolding r s using q by (simp add: log_msg_def split: write_outcome.splits)
  show "writes env (clock w + 1 + 2 * length ?kept) (hood_name @ str ''.json'') (hood_json ?D)
          = Written
         \<Longrightarrow> fst (scrape_hood env cfg hood_name burbs w) = Inr ?D
           \<and> files (snd (scrape_hood env cfg hood_name burbs w))
               = AList.update (hood_name @ str ''.json'') (Inr (hood_json ?D)) (files w)"
    unfolding r s c using f by (simp add: log_msg_def)
  show "writes env (clock w + 1 + 2 * length ?kept) (hood_name @ str ''.json'') (hood_json ?D)
          = OpenFailed x
         \<Longrightarrow> fst (scrape_hood env cfg hood_name burbs w) = Inl (write_exn x)
           \<and> files (snd (scrape_hood env cfg hood_name burbs w)) = files w"
    unfolding r s c using f by simp
  show "writes env (clock w + 1 + 2 * length ?kept) (hood_name @ str ''.json'') (hood_json ?D)
          = DumpFailed x
         \<Longrightarrow> fst (scrape_hood env cfg hood_name burbs w) = Inl (write_exn x)
           \<and> files (snd (scrape_hood env cfg hood_name burbs w))
               = AList.update (hood_name @ str ''.json'') (Inl JSONDecodeError) (files w)"
    unfolding r s c using f by simp
qed

lemma scrape_hood_frame:
  assumes "map_of (neighborhoods cfg) hood_name = Some info"
    and "f \<noteq> hood_name @ str ''.json''"
  shows "map_of (files (snd (scrape_hood env cfg hood_name burbs w))) f = map_of (files w) f"
  using scrape_hood_outcome(2-4)[OF assms(1), where env=env and burbs=burbs and w=w] assms(2)
  by (cases "writes env (clock w + 1 + 2 * length (spec_burbs_to_scrape info burbs))
           (hood_name @ str ''.json'')
           (hood_json (spec_group_document env cfg hood_name info
                         (spec_burbs_to_scrape info burbs) (clock w)))")
     (simp_all add: update_conv')

lemma spec_group_pages_known:
  "map_of (neighborhoods cfg) h = Some info \<Longrightarrow>
   spec_group_pages cfg h = hood_url_of cfg h # map (burb_url_of cfg h) (hi_burbs info)"
  by (simp add: spec_group_pages_def)

lemma spec_burbs_to_scrape_all [simp]: "spec_burbs_to_scrape info None = hi_burbs info"
  by (simp add: spec_burbs_to_scrape_def)

lemma main_loop_step:
  "h \<notin> S \<Longrightarrow>
   \<exists>w1. main_loop env cfg S (h # names) w = main_loop env cfg S names w1
       \<and> requests w1 = requests (snd (scrape_hood env cfg h None w))
       \<and> files w1 = files (snd (scrape_hood env cfg h None w))"
  by (cases "scrape_hood env cfg h None w"; cases "fst (scrape_hood env cfg h None w)")
     (auto simp: log_msg_def)

lemma main_loop_requests:
  "requests (main_loop env cfg S names w)
     = requests w @ concat (map (spec_group_pages cfg) (filter (\<lambda>h. h \<notin> S) names))"
proof (induction names arbitrary: w)
  case Nil
  show ?case by simp
next
  case (Cons h names)
  show ?case
  proof (cases "h \<in> S")
    case True
    then show ?thesis by (simp add: Cons.IH log_msg_def)
  next
    case False
    obtain w1 where w1: "main_loop env cfg S (h # names) w = main_loop env cfg S names w1"
      "requests w1 = requests (snd (scrape_hood env cfg h None w))"
      using main_loop_step[OF False] by blast
    have "requests w1 = requests w @ spec_group_pages cfg h"
    proof (cases "map_of (neighborhoods cfg) h")
      case None
      then show ?thesis using w1(2) by (simp add: scrape_hood_unknown spec_group_pages_def)
    next
      case (Some info)
      show ?thesis
        using w1(2) scrape_hood_outcome(1)[OF Some, where env=env and burbs=None and w=w]
        by (simp add: spec_group_pages_known[OF Some])
    qed
    then show ?thesis unfolding w1(1) using False by (simp add: Cons.IH)
  qed
qed

lemma main_loop_files:
  "f \<notin> (\<lambda>h. h @ str ''.json'') ` (set names - S) \<Longrightarrow>
   map_of (files (main_loop env cfg S names w)) f = map_of (files w) f"
proof (induction names arbitrary: w)
  case Nil
  show ?case by simp
next
  case (Cons h names)
  have rest: "f \<notin> (\<lambda>h. h @ str ''.json'') ` (set names - S)"
    using Cons.prems by auto
  show ?case
  proof (cases "h \<in> S")
    case True
    then show ?thesis by (simp add: Cons.IH[OF rest] log_msg_def)
  next
    case False
    then have ne: "f \<noteq> h @ str ''.json''" using Cons.prems by auto
    obtain w1 where w1: "main_loop env cfg S (h # names) w = main_loop env cfg S names w1"
      "files w1 = files (snd (scrape_hood env cfg h None w))"
      using main_loop_step[OF False] by blast
    have "map_of (files w1) f = map_of (files w) f"
    proof (cases "map_of (neighborhoods cfg) h")
      case None
      then show ?thesis using w1(2) by (simp add: scrape_hood_unknown)
    next
      case (Some info)
      show ?thesis using w1(2) scrape_hood_frame[OF Some ne, where env=env and burbs=None and w=w] by simp
    qed
    then show ?thesis unfolding w1(1) by (simp add: Cons.IH[OF rest])
  qed
qed

lemma stem_json [simp]: "take (length (h @ str ''.json'') - 5) (h @ str ''.json'') = h"
  by simp

lemma get_scraped_hoods_iff:
  "h \<in> get_scraped_hoods w \<longleftrightarrow> map_of (files w) (h @ str ''.json'') \<noteq> None"
proof
  assume "h \<in> get_scraped_hoods w"
  then obtain f where f: "f \<in> fst ` set (files w)" "suffix (str ''.json'') f"
    "h = take (length f - 5) f"
    by (auto simp: get_scraped_hoods_def)
  from f(2) obtain zs where "f = zs @ str ''.json''" by (auto simp: suffix_def)
  then have "f = h @ str ''.json''" using f(3) by simp
  then show "map_of (files w) (h @ str ''.json'') \<noteq> None"
    using f(1) by (simp add: map_of_eq_None_iff)
next
  assume "map_of (files w) (h @ str ''.json'') \<noteq> None"
  then have "h @ str ''.json'' \<in> fst ` set (files w)" by (simp add: map_of_eq_None_iff)
  then have "h @ str ''.json'' \<in> {x \<in> fst ` set (files w). suffix (str ''.json'') x}"
    by simp
  then have "(\<lambda>x. take (length x - 5) x) (h @ str ''.json'')
               \<in> (\<lambda>x. take (length x - 5) x) ` {x \<in> fst ` set (files w). suffix (str ''.json'') x}"
    by (rule imageI)
  moreover have "get_scraped_hoods w
      = (\<lambda>x. take (length x - 5) x) ` {x \<in> fst ` set (files w). suffix (str ''.json'') x}"
    by (auto simp: get_scraped_hoods_def)
  ultimately show "h \<in> get_scraped_hoods w" by simp
qed

lemma scrape_hood_document_or_write_error:
  assumes "map_of (neighborhoods cfg) hood_name = Some info"
  shows "(\<exists>d. fst (scrape_hood env cfg hood_name burbs w) = Inr d)
       \<or> (\<exists>x. fst (scrape_hood env cfg hood_name burbs w) = Inl (write_exn x))"
  using scrape_hood_outcome(2-4)[OF assms, where env=env and burbs=burbs and w=w]
  by (cases "writes env (clock w + 1 + 2 * length (spec_burbs_to_scrape info burbs))
               (hood_name @ str ''.json'')
               (hood_json (spec_group_document env cfg hood_name info
                             (spec_burbs_to_scrape info burbs) (clock w)))") auto

lemma write_exn_not_lookup:
  "write_exn x \<noteq> ValueError (str ''Hood '' @ hood_name @ str '' not found in config'')"
  by (cases x) (simp_all add: str_def)

lemmas page_defs = extract_card_def card_title_def find_tag_def find_all_def
       py_split_def py_strip_def py_replace_def py_isspace_def sound_glyph_def Let_def
       sublist_Cons_right

lemma ex_athens: "map_of (neighborhoods ex_config) (str ''Athens'')
   = Some \<lparr>hi_description = str ''Education'', hi_burbs = [str ''Acropolis'']\<rparr>"
  by (simp add: ex_config_def)

lemma ex_athens_fails:
  "respond ex_env t (hood_url_of ex_config (str ''Athens'')) = Inl (HTTPError 404)"
  by (simp add: ex_env_def ex_config_def hood_url_of_def str_def)

lemma ex_page_cards:
  "spec_page_cards (Inr ex_page)
     = [\<lparr>c_title = str ''Home'', c_url = str ''Area51/1'', c_last_modified = str ''2009'',
         c_has_sound = False\<rparr>]"
  by (simp add: spec_page_cards_def ex_page_def page_defs str_def List.map_filter_simps)

lemma ex_athens_scraped:
  "fst (scrape_hood ex_env ex_config (str ''Athens'') None ex_world)
     = Inr (spec_group_document ex_env ex_config (str ''Athens'')
              \<lparr>hi_description = str ''Education'', hi_burbs = [str ''Acropolis'']\<rparr>
              [str ''Acropolis''] 0)"
  "files (snd (scrape_hood ex_env ex_config (str ''Athens'') None ex_world))
     = AList.update (str ''Athens'' @ str ''.json'')
         (Inr (hood_json (spec_group_document ex_env ex_config (str ''Athens'')
              \<lparr>hi_description = str ''Education'', hi_burbs = [str ''Acropolis'']\<rparr>
              [str ''Acropolis''] 0)))
         (files ex_world)"
  using scrape_hood_outcome(2)[OF ex_athens, where env=ex_env and burbs=None and w=ex_world]
  by (simp_all add: ex_env_def ex_world_def)

lemma ex_athens_document:
  "h_cards (spec_group_document ex_env ex_config (str ''Athens'')
              \<lparr>hi_description = str ''Education'', hi_burbs = [str ''Acropolis'']\<rparr>
              [str ''Acropolis''] 0) = []"
  "map (\<lambda>b. (b_name b, length (b_cards b)))
     (h_burbs (spec_group_document ex_env ex_config (str ''Athens'')
              \<lparr>hi_description = str ''Education'', hi_burbs = [str ''Acropolis'']\<rparr>
              [str ''Acropolis''] 0)) = [(str ''Acropolis'', 1)]"
proof -
  have a: "respond ex_env t (burb_url_of ex_config (str ''Athens'') (str ''Acropolis''))
             = Inr ex_page" for t
    by (simp add: ex_env_def ex_config_def burb_url_of_def str_def)
  show "h_cards (spec_group_document ex_env ex_config (str ''Athens'')
              \<lparr>hi_description = str ''Education'', hi_burbs = [str ''Acropolis'']\<rparr>
              [str ''Acropolis''] 0) = []"
    by (simp add: spec_group_document_def ex_athens_fails spec_page_cards_def)
  show "map (\<lambda>b. (b_name b, length (b_cards b)))
     (h_burbs (spec_group_document ex_env ex_config (str ''Athens'')
              \<lparr>hi_description = str ''Education'', hi_burbs = [str ''Acropolis'']\<rparr>
              [str ''Acropolis''] 0)) = [(str ''Acropolis'', 1)]"
    by (simp add: spec_group_document_def a ex_page_cards)
qed

section \<open>Claims about the scraper\<close>

text \<open>
  Claim C4. A batch run with the resume flag raises nothing, leaves every entry
  \<^verbatim>\<open><group_name>.json\<close> that existed before the run as it was, and requests exactly the
  pages of the configured groups that had no such entry, in configuration order: the page
  of the group, then the pages of its subgroups. No page is requested for a group whose
  file exists.
\<close>

theorem resume_skips_persisted_groups:
  "fst (main env cfg \<lparr>arg_hood = None, arg_burbs = bs, arg_resume = True\<rparr> w) = None
   \<and> (\<forall>h. map_of (files w) (h @ str ''.json'') \<noteq> None \<longrightarrow>
         map_of (files (snd (main env cfg \<lparr>arg_hood = None, arg_burbs = bs, arg_resume = True\<rparr> w)))
           (h @ str ''.json'')
         = map_of (files w) (h @ str ''.json''))
   \<and> requests (snd (main env cfg \<lparr>arg_hood = None, arg_burbs = bs, arg_resume = True\<rparr> w))
       = requests w @
         concat (map (spec_group_pages cfg)
                   (filter (\<lambda>h. map_of (files w) (h @ str ''.json'') = None)
                      (map fst (neighborhoods cfg))))"
proof -
  let ?S = "get_scraped_hoods w"
  let ?names = "map fst (neighborhoods cfg)"
  have m: "main env cfg \<lparr>arg_hood = None, arg_burbs = bs, arg_resume = True\<rparr> w
             = (None, log_msg INFO ScrapingCompleted (main_loop env cfg ?S ?names w))"
    by (simp add: main_def scrape_all_def Let_def)
  have kept: "map_of (files (main_loop env cfg ?S ?names w)) (h @ str ''.json'')
                = map_of (files w) (h @ str ''.json'')"
    if "map_of (files w) (h @ str ''.json'') \<noteq> None" for h
  proof (rule main_loop_files)
    have "h \<in> ?S" using that by (simp add: get_scraped_hoods_iff)
    then show "h @ str ''.json'' \<notin> (\<lambda>h. h @ str ''.json'') ` (set ?names - ?S)" by auto
  qed
  have "filter (\<lambda>h. h \<notin> ?S) ?names
          = filter (\<lambda>h. map_of (files w) (h @ str ''.json'') = None) ?names"
    by (simp add: get_scraped_hoods_iff)
  then have req: "requests (main_loop env cfg ?S ?names w)
      = requests w @ concat (map (spec_group_pages cfg)
          (filter (\<lambda>h. map_of (files w) (h @ str ''.json'') = None) ?names))"
    by (simp add: main_loop_requests)
  show ?thesis
    unfolding m using kept req by (simp add: log_msg_def)
qed

text \<open>
  The example: \<^verbatim>\<open>Area51.json\<close> exists, so only the two pages of \<^verbatim>\<open>Athens\<close> are requested
  and the file of \<^verbatim>\<open>Area51\<close> is the one that was there.
\<close>

theorem resume_skips_persisted_groups_witness:
  "map_of (files ex_world) (str ''Area51'' @ str ''.json'') \<noteq> None
   \<and> map_of (files (snd (main ex_env ex_config
          \<lparr>arg_hood = None, arg_burbs = None, arg_resume = True\<rparr> ex_world)))
        (str ''Area51'' @ str ''.json'')
       = Some (Inr (hood_json ex_hood))
   \<and> requests (snd (main ex_env ex_config
          \<lparr>arg_hood = None, arg_burbs = None, arg_resume = True\<rparr> ex_world))
       = [str ''http://mirror/Athens'', str ''http://mirror/Athens/Acropolis'']"
proof -
  note t = resume_skips_persisted_groups[of ex_env ex_config None ex_world]
  have e: "map_of (files ex_world) (str ''Area51'' @ str ''.json'')
             = Some (Inr (hood_json ex_hood))"
    by (simp add: ex_world_def str_def)
  have k: "map_of (files (snd (main ex_env ex_config
          \<lparr>arg_hood = None, arg_burbs = None, arg_resume = True\<rparr> ex_world)))
        (str ''Area51'' @ str ''.json'')
       = map_of (files ex_world) (str ''Area51'' @ str ''.json'')"
    using t e by blast
  have "requests ex_world @
         concat (map (spec_group_pages ex_config)
                   (filter (\<lambda>h. map_of (files ex_world) (h @ str ''.json'') = None)
                      (map fst (neighborhoods ex_config))))
        = [str ''http://mirror/Athens'', str ''http://mirror/Athens/Acropolis'']"
    by (simp add: ex_world_def ex_config_def spec_group_pages_def hood_url_of_def
          burb_url_of_def str_def)
  then have r: "requests (snd (main ex_env ex_config
          \<lparr>arg_hood = None, arg_burbs = None, arg_resume = True\<rparr> ex_world))
       = [str ''http://mirror/Athens'', str ''http://mirror/Athens/Acropolis'']"
    using t by simp
  show ?thesis using e k r by simp
qed

text \<open>
  Claim C5. Whatever the environment answers and whichever subgroups are requested, a
  document returned by \<^verbatim>\<open>scrape_hood\<close> is the one persisted under
  \<^verbatim>\<open><hood_name>.json\<close>, its \<^verbatim>\<open>total_pages\<close> is the number of its cards, its
  \<^verbatim>\<open>total_burbs\<close> the number of its subgroup documents, and in each subgroup document
  \<^verbatim>\<open>total_pages\<close> is the number of cards.
\<close>

theorem persisted_document_counts:
  assumes "scrape_hood env cfg hood_name burbs w = (Inr d, w')"
  shows "h_total_pages d = int (length (h_cards d))
       \<and> h_total_burbs d = int (length (h_burbs d))
       \<and> (\<forall>b\<in>set (h_burbs d). b_total_pages b = int (length (b_cards b)))
       \<and> map_of (files w') (hood_name @ str ''.json'') = Some (Inr (hood_json d))"
proof (cases "map_of (neighborhoods cfg) hood_name")
  case None
  then show ?thesis using assms by (simp add: scrape_hood_unknown)
next
  case (Some info)
  let ?kept = "spec_burbs_to_scrape info burbs"
  let ?D = "spec_group_document env cfg hood_name info ?kept (clock w)"
  note o = scrape_hood_outcome(2-4)[OF Some, where env=env and burbs=burbs and w=w]
  have "d = ?D \<and> files w' = AList.update (hood_name @ str ''.json'') (Inr (hood_json ?D)) (files w)"
    using o assms
    by (cases "writes env (clock w + 1 + 2 * length ?kept) (hood_name @ str ''.json'')
                 (hood_json ?D)") simp_all
  then show ?thesis
    using spec_burb_documents_counts[of env cfg hood_name "clock w + 1" ?kept]
    by (simp add: spec_group_document_def update_conv')
qed

theorem persisted_document_counts_witness:
  "scrape_hood ex_env ex_config (str ''Athens'') None ex_world
     = (Inr (projr (fst (scrape_hood ex_env ex_config (str ''Athens'') None ex_world))),
        snd (scrape_hood ex_env ex_config (str ''Athens'') None ex_world))
   \<and> h_total_pages (projr (fst (scrape_hood ex_env ex_config (str ''Athens'') None ex_world))) = 0
   \<and> h_cards (projr (fst (scrape_hood ex_env ex_config (str ''Athens'') None ex_world))) = []
   \<and> h_total_burbs (projr (fst (scrape_hood ex_env ex_config (str ''Athens'') None ex_world)))
       = int (length (h_burbs (projr (fst (scrape_hood ex_env ex_config (str ''Athens'') None
            ex_world)))))
   \<and> map_of (files (snd (scrape_hood ex_env ex_config (str ''Athens'') None ex_world)))
        (str ''Athens'' @ str ''.json'')
       = Some (Inr (hood_json (projr (fst (scrape_hood ex_env ex_config (str ''Athens'') None
            ex_world)))))"
proof -
  let ?R = "scrape_hood ex_env ex_config (str ''Athens'') None ex_world"
  have h: "?R = (Inr (projr (fst ?R)), snd ?R)"
    by (simp add: ex_athens_scraped(1) prod_eq_iff)
  have c: "h_cards (projr (fst ?R)) = []"
    by (simp add: ex_athens_scraped(1) ex_athens_document(1))
  show ?thesis
    using persisted_document_counts[OF h] h c by simp
qed

text \<open>
  Claim C7 against the code. The comment on line 61 and the claim speak of a prefix, but
  line 62 calls \<^verbatim>\<open>replace\<close>, which removes \<^verbatim>\<open>www.geocities.com/\<close> wherever it occurs. For a
  card whose subtitle is \<^verbatim>\<open>" http://www.geocities.com/Area51/ "\<close> (no marker) the extracted
  url is \<^verbatim>\<open>http://Area51/\<close>, while the stripped subtitle with the prefix removed is
  \<^verbatim>\<open>http://www.geocities.com/Area51/\<close>, since it does not start with the prefix.
\<close>

theorem url_prefix_removed_anywhere:
  "extract_card ex_card_scheme =
     Inr (Some \<lparr>c_title = str ''Untitled'', c_url = str ''http://Area51/'',
               c_last_modified = [], c_has_sound = False\<rparr>)
   \<and> spec_remove_prefix (str ''www.geocities.com/'')
        (py_strip (str '' http://www.geocities.com/Area51/ ''))
       = str ''http://www.geocities.com/Area51/''"
  by (simp add: ex_card_scheme_def page_defs spec_remove_prefix_def str_def)



text \<open>
  Claim C8. When the request for a page fails, \<^verbatim>\<open>get_burb_cards\<close> returns the empty list
  and logs the error instead of raising. For a configured group, whatever the environment
  answers to the requests, \<^verbatim>\<open>scrape_hood\<close> requests the page of the group and of every
  subgroup to scrape, assembles the document of the group from the answers (name,
  description, url, the cards of each page, none for a page whose fetch failed, the
  subgroups in order, the counts) and hands it to the write as its last step. No fetch
  failure keeps the document from being persisted: when the write succeeds the document
  is returned and is the content of \<^verbatim>\<open><hood_name>.json\<close>; only an exception of the write
  itself ends \<^verbatim>\<open>scrape_hood\<close> otherwise, leaving the directory as it was when the file
  could not be opened and a truncated file when the dump failed.
\<close>

theorem fetch_failure_not_fatal:
  "(respond env (clock w) url = Inl e \<longrightarrow>
      get_burb_cards env url w
        = ([], log_msg ERROR (ErrorScrapingPage url e)
                 (w\<lparr>requests := requests w @ [url], clock := Suc (clock w)\<rparr>)))
   \<and> (map_of (neighborhoods cfg) hood_name = Some info \<longrightarrow>
        (let subgroups = spec_burbs_to_scrape info burbs;
             d = spec_group_document env cfg hood_name info subgroups (clock w);
             output_file = hood_name @ str ''.json'';
             r = scrape_hood env cfg hood_name burbs w
         in requests (snd r)
              = requests w @ hood_url_of cfg hood_name # map (burb_url_of cfg hood_name) subgroups
          \<and> (case writes env (clock w + 1 + 2 * length subgroups) output_file (hood_json d) of
                Written \<Rightarrow>
                  fst r = Inr d
                  \<and> files (snd r) = AList.update output_file (Inr (hood_json d)) (files w)
                  \<and> map_of (files (snd r)) output_file = Some (Inr (hood_json d))
              | OpenFailed x \<Rightarrow> fst r = Inl (write_exn x) \<and> files (snd r) = files w
              | DumpFailed x \<Rightarrow>
                  fst r = Inl (write_exn x)
                  \<and> files (snd r) = AList.update output_file (Inl JSONDecodeError) (files w))
          \<and> h_name d = hood_name \<and> h_url d = hood_url_of cfg hood_name
          \<and> h_cards d = spec_page_cards (respond env (clock w) (hood_url_of cfg hood_name))
          \<and> map b_name (h_burbs d) = subgroups
          \<and> (isl (respond env (clock w) (hood_url_of cfg hood_name)) \<longrightarrow> h_cards d = [])
          \<and> ((\<forall>t u. isl (respond env t u)) \<longrightarrow>
                h_cards d = [] \<and> (\<forall>b\<in>set (h_burbs d). b_cards b = []))))"
proof (intro conjI impI)
  assume "respond env (clock w) url = Inl e"
  then show "get_burb_cards env url w
        = ([], log_msg ERROR (ErrorScrapingPage url e)
                 (w\<lparr>requests := requests w @ [url], clock := Suc (clock w)\<rparr>))"
    by (simp add: get_burb_cards_def Let_def)
next
  assume i: "map_of (neighborhoods cfg) hood_name = Some info"
  let ?kept = "spec_burbs_to_scrape info burbs"
  let ?D = "spec_group_document env cfg hood_name info ?kept (clock w)"
  let ?r = "scrape_hood env cfg hood_name burbs w"
  let ?f = "hood_name @ str ''.json''"
  note o = scrape_hood_outcome[OF i, where env=env and burbs=burbs and w=w]
  have 1: "requests (snd ?r)
      = requests w @ hood_url_of cfg hood_name # map (burb_url_of cfg hood_name) ?kept"
    by (rule o(1))
  have 2: "case writes env (clock w + 1 + 2 * length ?kept) ?f (hood_json ?D) of
                Written \<Rightarrow>
                  fst ?r = Inr ?D
                  \<and> files (snd ?r) = AList.update ?f (Inr (hood_json ?D)) (files w)
                  \<and> map_of (files (snd ?r)) ?f = Some (Inr (hood_json ?D))
              | OpenFailed x \<Rightarrow> fst ?r = Inl (write_exn x) \<and> files (snd ?r) = files w
              | DumpFailed x \<Rightarrow>
                  fst ?r = Inl (write_exn x)
                  \<and> files (snd ?r) = AList.update ?f (Inl JSONDecodeError) (files w)"
    using o(2-4)
    by (cases "writes env (clock w + 1 + 2 * length ?kept) ?f (hood_json ?D)")
       (simp_all add: update_conv')
  have 3: "h_name ?D = hood_name" "h_url ?D = hood_url_of cfg hood_name"
    "h_cards ?D = spec_page_cards (respond env (clock w) (hood_url_of cfg hood_name))"
    "map b_name (h_burbs ?D) = ?kept"
    by (simp_all add: spec_group_document_def spec_burb_documents_names)
  have 4: "isl (respond env (clock w) (hood_url_of cfg hood_name)) \<longrightarrow> h_cards ?D = []"
    by (simp add: spec_group_document_def spec_page_cards_isl)
  have 5: "(\<forall>t u. isl (respond env t u)) \<longrightarrow>
             h_cards ?D = [] \<and> (\<forall>b\<in>set (h_burbs ?D). b_cards b = [])"
    using spec_burb_documents_all_fail[of env cfg hood_name "clock w + 1" ?kept]
    by (simp add: spec_group_document_def spec_page_cards_isl)
  show "let subgroups = spec_burbs_to_scrape info burbs;
             d = spec_group_document env cfg hood_name info subgroups (clock w);
             output_file = hood_name @ str ''.json'';
             r = scrape_hood env cfg hood_name burbs w
         in requests (snd r)
              = requests w @ hood_url_of cfg hood_name # map (burb_url_of cfg hood_name) subgroups
          \<and> (case writes env (clock w + 1 + 2 * length subgroups) output_file (hood_json d) of
                Written \<Rightarrow>
                  fst r = Inr d
                  \<and> files (snd r) = AList.update output_file (Inr (hood_json d)) (files w)
                  \<and> map_of (files (snd r)) output_file = Some (Inr (hood_json d))
              | OpenFailed x \<Rightarrow> fst r = Inl (write_exn x) \<and> files (snd r) = files w
              | DumpFailed x \<Rightarrow>
                  fst r = Inl (write_exn x)
                  \<and> files (snd r) = AList.update output_file (Inl JSONDecodeError) (files w))
          \<and> h_name d = hood_name \<and> h_url d = hood_url_of cfg hood_name
          \<and> h_cards d = spec_page_cards (respond env (clock w) (hood_url_of cfg hood_name))
          \<and> map b_name (h_burbs d) = subgroups
          \<and> (isl (respond env (clock w) (hood_url_of cfg hood_name)) \<longrightarrow> h_cards d = [])
          \<and> ((\<forall>t u. isl (respond env t u)) \<longrightarrow>
                h_cards d = [] \<and> (\<forall>b\<in>set (h_burbs d). b_cards b = []))"
    unfolding Let_def using 1 2 3 4 5 by blast
qed

text \<open>
  The example: the page of \<^verbatim>\<open>Athens\<close> cannot be fetched, its subgroup page can; the
  document has no cards of its own, one subgroup with one card, and is persisted.
\<close>

theorem fetch_failure_not_fatal_witness:
  "respond ex_env (clock ex_world) (str ''http://mirror/Athens'') = Inl (HTTPError 404)
   \<and> get_burb_cards ex_env (str ''http://mirror/Athens'') ex_world
       = ([], \<lparr>clock = 1, requests = [str ''http://mirror/Athens''], files = files ex_world,
              logged = [(ERROR, ErrorScrapingPage (str ''http://mirror/Athens'') (HTTPError 404))]\<rparr>)
   \<and> map_of (neighborhoods ex_config) (str ''Athens'')
       = Some \<lparr>hi_description = str ''Education'', hi_burbs = [str ''Acropolis'']\<rparr>
   \<and> requests (snd (scrape_hood ex_env ex_config (str ''Athens'') None ex_world))
       = [str ''http://mirror/Athens'', str ''http://mirror/Athens/Acropolis'']
   \<and> \<not> isl (fst (scrape_hood ex_env ex_config (str ''Athens'') None ex_world))
   \<and> h_name (projr (fst (scrape_hood ex_env ex_config (str ''Athens'') None ex_world)))
       = str ''Athens''
   \<and> h_cards (projr (fst (scrape_hood ex_env ex_config (str ''Athens'') None ex_world))) = []
   \<and> map (\<lambda>b. (b_name b, length (b_cards b)))
        (h_burbs (projr (fst (scrape_hood ex_env ex_config (str ''Athens'') None ex_world))))
       = [(str ''Acropolis'', 1)]
   \<and> map_of (files (snd (scrape_hood ex_env ex_config (str ''Athens'') None ex_world)))
        (str ''Athens'' @ str ''.json'')
       = Some (Inr (hood_json (projr (fst (scrape_hood ex_env ex_config (str ''Athens'') None
            ex_world)))))"
proof -
  let ?info = "\<lparr>hi_description = str ''Education'', hi_burbs = [str ''Acropolis'']\<rparr>"
  let ?D = "spec_group_document ex_env ex_config (str ''Athens'') ?info [str ''Acropolis''] 0"
  let ?r = "scrape_hood ex_env ex_config (str ''Athens'') None ex_world"
  have f: "respond ex_env (clock ex_world) (str ''http://mirror/Athens'') = Inl (HTTPError 404)"
    by (simp add: ex_env_def)
  have c: "clock ex_world = 0" and q: "requests ex_world = []" by (simp_all add: ex_world_def)
  have wr: "writes ex_env t n j = Written" for t n j by (simp add: ex_env_def)
  have u: "hood_url_of ex_config (str ''Athens'') = str ''http://mirror/Athens''"
    "burb_url_of ex_config (str ''Athens'') (str ''Acropolis'')
       = str ''http://mirror/Athens/Acropolis''"
    by (simp_all add: hood_url_of_def burb_url_of_def ex_config_def str_def)
  note t = fetch_failure_not_fatal[of ex_env ex_world "str ''http://mirror/Athens''"
             "HTTPError 404" ex_config "str ''Athens''" ?info None, unfolded Let_def]
  from t f have g: "get_burb_cards ex_env (str ''http://mirror/Athens'') ex_world
       = ([], \<lparr>clock = 1, requests = [str ''http://mirror/Athens''], files = files ex_world,
              logged = [(ERROR, ErrorScrapingPage (str ''http://mirror/Athens'') (HTTPError 404))]\<rparr>)"
    by (simp add: log_msg_def ex_world_def)
  from t ex_athens have
    r: "requests (snd ?r) = [str ''http://mirror/Athens'', str ''http://mirror/Athens/Acropolis'']"
    and d: "fst ?r = Inr ?D"
    and p: "map_of (files (snd ?r)) (str ''Athens'' @ str ''.json'') = Some (Inr (hood_json ?D))"
    and n: "h_name ?D = str ''Athens''"
    by (simp_all add: c q wr u update_conv')
  show ?thesis
    using f g ex_athens r p n by (simp add: d ex_athens_document)
qed

text \<open>
  Claim C9. \<^verbatim>\<open>scrape_hood\<close> ends with the lookup error of line 125, the \<^verbatim>\<open>ValueError\<close>
  that says the group was not found, exactly when the group name is not a key of the
  configuration. The error is then raised before any effect, and it is the result of
  \<^verbatim>\<open>scrape_hood\<close> itself: a single-group run of \<^verbatim>\<open>main\<close> ends with it. For a configured
  group the lookup error does not arise, whatever becomes of the fetches and of the write.
\<close>

theorem group_not_found_iff_absent:
  "((\<exists>w'. scrape_hood env cfg hood_name burbs w
            = (Inl (ValueError (str ''Hood '' @ hood_name @ str '' not found in config'')), w'))
      \<longleftrightarrow> hood_name \<notin> fst ` set (neighborhoods cfg))
   \<and> (hood_name \<notin> fst ` set (neighborhoods cfg) \<longrightarrow>
        scrape_hood env cfg hood_name burbs w
          = (Inl (ValueError (str ''Hood '' @ hood_name @ str '' not found in config'')), w))
   \<and> (hood_name \<notin> fst ` set (neighborhoods cfg) \<and> hood_name \<noteq> [] \<longrightarrow>
        fst (main env cfg \<lparr>arg_hood = Some hood_name, arg_burbs = burbs, arg_resume = r\<rparr> w)
          = Some (ValueError (str ''Hood '' @ hood_name @ str '' not found in config'')))"
proof (cases "map_of (neighborhoods cfg) hood_name")
  case None
  then have "hood_name \<notin> fst ` set (neighborhoods cfg)" by (simp add: map_of_eq_None_iff)
  then show ?thesis using None by (simp add: scrape_hood_unknown main_def)
next
  case (Some info)
  then have p: "hood_name \<in> fst ` set (neighborhoods cfg)"
    by (metis map_of_eq_None_iff option.distinct(1))
  have c: "(\<exists>d. fst (scrape_hood env cfg hood_name burbs w) = Inr d)
        \<or> (\<exists>x. fst (scrape_hood env cfg hood_name burbs w) = Inl (write_exn x))"
    by (rule scrape_hood_document_or_write_error[OF Some])
  have "\<not> (\<exists>w'. scrape_hood env cfg hood_name burbs w
            = (Inl (ValueError (str ''Hood '' @ hood_name @ str '' not found in config'')), w'))"
  proof
    assume "\<exists>w'. scrape_hood env cfg hood_name burbs w
            = (Inl (ValueError (str ''Hood '' @ hood_name @ str '' not found in config'')), w')"
    then have l: "fst (scrape_hood env cfg hood_name burbs w)
            = Inl (ValueError (str ''Hood '' @ hood_name @ str '' not found in config''))"
      by auto
    then obtain x where "fst (scrape_hood env cfg hood_name burbs w) = Inl (write_exn x)"
      using c by auto
    then have "write_exn x
                 = ValueError (str ''Hood '' @ hood_name @ str '' not found in config'')"
      using l by simp
    then show False using write_exn_not_lookup[of x hood_name] by simp
  qed
  then show ?thesis using p by simp
qed

text \<open>
  The example: \<^verbatim>\<open>Nowhere\<close> is not configured; \<^verbatim>\<open>Athens\<close> is, and its run returns a
  document, or ends with \<^verbatim>\<open>PermissionError\<close> when the directory cannot be written.
\<close>

theorem group_not_found_iff_absent_witness:
  "str ''Nowhere'' \<notin> fst ` set (neighborhoods ex_config)
   \<and> scrape_hood ex_env ex_config (str ''Nowhere'') None ex_world
       = (Inl (ValueError (str ''Hood Nowhere not found in config'')), ex_world)
   \<and> fst (main ex_env ex_config
        \<lparr>arg_hood = Some (str ''Nowhere''), arg_burbs = None, arg_resume = False\<rparr> ex_world)
       = Some (ValueError (str ''Hood Nowhere not found in config''))
   \<and> str ''Athens'' \<in> fst ` set (neighborhoods ex_config)
   \<and> \<not> isl (fst (scrape_hood ex_env ex_config (str ''Athens'') None ex_world))
   \<and> fst (scrape_hood ex_env_read_only ex_config (str ''Athens'') None ex_world)
       = Inl PermissionError
   \<and> fst (scrape_hood ex_env_read_only ex_config (str ''Athens'') None ex_world)
       \<noteq> Inl (ValueError (str ''Hood Athens not found in config''))"
proof -
  have n: "str ''Nowhere'' \<notin> fst ` set (neighborhoods ex_config)"
    and a: "str ''Athens'' \<in> fst ` set (neighborhoods ex_config)"
    by (simp_all add: ex_config_def)
  have s: "str ''Hood '' @ str ''Nowhere'' @ str '' not found in config''
             = str ''Hood Nowhere not found in config''"
    and s': "str ''Hood '' @ str ''Athens'' @ str '' not found in config''
             = str ''Hood Athens not found in config''"
    and e: "str ''Nowhere'' \<noteq> []"
    by (simp_all add: str_def)
  have ro: "fst (scrape_hood ex_env_read_only ex_config (str ''Athens'') None ex_world)
              = Inl PermissionError"
    using scrape_hood_outcome(3)[OF ex_athens, where env=ex_env_read_only and burbs=None
            and w=ex_world and x=NotPermitted]
    by (simp add: ex_env_read_only_def)
  have ok: "\<not> isl (fst (scrape_hood ex_env ex_config (str ''Athens'') None ex_world))"
    by (simp add: ex_athens_scraped(1))
  have "fst (scrape_hood ex_env_read_only ex_config (str ''Athens'') None ex_world)
       \<noteq> Inl (ValueError (str ''Hood Athens not found in config''))"
    using group_not_found_iff_absent[of ex_env_read_only ex_config "str ''Athens''" None ex_world]
      a ro by simp
  then show ?thesis
    using group_not_found_iff_absent[of ex_env ex_config "str ''Nowhere''" None ex_world False]
      n a e ro ok by (simp add: s)
qed

text \<open>
  Claim C10. A card element without a subtitle element yields no record, whether or not
  it has a title link: the loop over the card elements of a page gives the same cards as
  without that element, as many as there are elements with a subtitle, and leaves the
  world as it was, so nothing is logged either.
\<close>

theorem card_without_subtitle_dropped:
  assumes "find_tag (str ''div'') (Some (str ''card-subtitle'')) a_card = None"
  shows "extract_card a_card = Inr None
       \<and> cards_loop (a_card # rest) cards w = cards_loop rest cards w
       \<and> cards_loop (before @ a_card # rest) [] w = cards_loop (before @ rest) [] w
       \<and> length (fst (cards_loop (before @ a_card # rest) [] w))
           = length (filter (\<lambda>e. find_tag (str ''div'') (Some (str ''card-subtitle'')) e \<noteq> None)
                       (before @ rest))
       \<and> snd (cards_loop (before @ a_card # rest) [] w) = w"
proof -
  have 1: "extract_card a_card = Inr None" using assms by (rule extract_card_no_subtitle)
  have 2: "cards_loop (a_card # rest) cs w = cards_loop rest cs w" for cs
    by (simp add: 1)
  have 3: "cards_loop (xs @ a_card # rest) cs w = cards_loop (xs @ rest) cs w" for xs cs
  proof (induction xs arbitrary: cs)
    case Nil
    show ?case by (simp add: 1)
  next
    case (Cons x xs)
    show ?case
      using extract_card_not_Inl[of x] Cons.IH
      by (cases "extract_card x") (auto split: option.splits)
  qed
  show ?thesis
    using assms by (simp add: 1 3 cards_loop_length cards_loop_world)
qed

theorem card_without_subtitle_dropped_witness:
  "find_tag (str ''div'') (Some (str ''card-subtitle'')) ex_card_no_subtitle = None
   \<and> card_title ex_card_no_subtitle = str ''Home''
   \<and> extract_card ex_card_no_subtitle = Inr None
   \<and> cards_loop [ex_card_no_subtitle] [] ex_world = ([], ex_world)"
proof -
  have h: "find_tag (str ''div'') (Some (str ''card-subtitle'')) ex_card_no_subtitle = None"
    by (simp add: ex_card_no_subtitle_def find_tag_def find_all_def)
  have t: "card_title ex_card_no_subtitle = str ''Home''"
    by (simp add: ex_card_no_subtitle_def card_title_def find_tag_def find_all_def)
  show ?thesis
    using card_without_subtitle_dropped[OF h, where rest="[]" and cards="[]" and w=ex_world
            and before="[]"] h t
    by simp
qed

end
